theory Spec2Isabelle
  imports Complex_Main "HOL-Library.Sublist"
begin

section \<open>JavaScript strings\<close>

text \<open>
  A JavaScript string is modelled as a \<^typ>\<open>string\<close> whose characters are read as the
  code units U+0000 to U+00FF. \<open>String.prototype.trim\<close> removes white space and line
  terminators; in that range these are TAB, LF, VT, FF, CR, SPACE and NO-BREAK SPACE.
\<close>

definition is_js_space :: "char \<Rightarrow> bool" where
  "is_js_space c = (of_char c \<in> {9, 10, 11, 12, 13, 32, 160 :: nat})"

definition trim :: "string \<Rightarrow> string" where
  "trim s = rev (dropWhile is_js_space (rev (dropWhile is_js_space s)))"

text \<open>\<open>hay.includes(needle)\<close>: the needle occurs at some position of the string.\<close>

primrec str_includes :: "string \<Rightarrow> string \<Rightarrow> bool" where
  "str_includes [] needle = (needle = [])"
| "str_includes (c # cs) needle = (prefix needle (c # cs) \<or> str_includes cs needle)"

text \<open>\<open>s.startsWith(p)\<close> and \<open>s.substring(n)\<close>.\<close>

definition startsWith :: "string \<Rightarrow> string \<Rightarrow> bool" where
  "startsWith s p = prefix p s"

definition substring_from :: "string \<Rightarrow> nat \<Rightarrow> string" where
  "substring_from s n = drop n s"

text \<open>The decimal text of a non-negative integer, as a template literal prints it.\<close>

fun string_of_nat :: "nat \<Rightarrow> string" where
  "string_of_nat n =
     (if n < 10 then [''0123456789'' ! n]
      else string_of_nat (n div 10) @ [''0123456789'' ! (n mod 10)])"

declare string_of_nat.simps [simp del]

text \<open>
  A value that may be \<open>undefined\<close> is an \<open>option\<close>, \<open>None\<close> being \<open>undefined\<close>. Inside a
  template literal \<open>undefined\<close> prints as the text \<open>undefined\<close>.
\<close>

definition template_text :: "string option \<Rightarrow> string" where
  "template_text v = (case v of None \<Rightarrow> ''undefined'' | Some s \<Rightarrow> s)"

section \<open>Objects used as lookup tables\<close>

text \<open>
  \<open>MODEL_MAPPINGS[model]\<close> and \<open>modelVersions[model]\<close> are property reads on plain objects,
  here maps from their own property names to texts: an own property wins, otherwise the property is looked up on \<open>Object.prototype\<close>, whose
  members are functions (and, for \<open>__proto__\<close>, the prototype object itself).
\<close>

datatype js_value =
    JUndefined
  | JString string
  | JInherited string

definition object_prototype_names :: "string list" where
  "object_prototype_names =
     [''constructor'', ''__defineGetter__'', ''__defineSetter__'', ''hasOwnProperty'',
      ''__lookupGetter__'', ''__lookupSetter__'', ''isPrototypeOf'',
      ''propertyIsEnumerable'', ''toString'', ''valueOf'', ''__proto__'',
      ''toLocaleString'']"

definition get_property :: "(string \<rightharpoonup> string) \<Rightarrow> string \<Rightarrow> js_value" where
  "get_property obj key =
     (case obj key of
        Some v \<Rightarrow> JString v
      | None \<Rightarrow> if key \<in> set object_prototype_names then JInherited key else JUndefined)"

fun truthy :: "js_value \<Rightarrow> bool" where
  "truthy JUndefined = False"
| "truthy (JString s) = (s \<noteq> [])"
| "truthy (JInherited n) = True"

definition js_or :: "js_value \<Rightarrow> js_value \<Rightarrow> js_value" where
  "js_or a b = (if truthy a then a else b)"

text \<open>The property key a value is converted to when it is used as an index.\<close>

fun property_key :: "js_value \<Rightarrow> string" where
  "property_key JUndefined = ''undefined''"
| "property_key (JString s) = s"
| "property_key (JInherited n) =
     (if n = ''__proto__'' then ''[object Object]''
      else ''function '' @ (if n = ''constructor'' then ''Object'' else n)
             @ ''() { [native code] }'')"

definition of_field :: "string option \<Rightarrow> js_value" where
  "of_field v = (case v of None \<Rightarrow> JUndefined | Some s \<Rightarrow> JString s)"

section \<open>Model resolution\<close>

text \<open>
  The server variants read the table and the default from \<open>models.json\<close>; the worker
  variants carry them as constants.
\<close>

record model_config =
  mappings :: "string \<rightharpoonup> string"
  default_model :: string

definition resolve_model :: "model_config \<Rightarrow> string option \<Rightarrow> js_value" where
  "resolve_model cfg model =
     js_or (get_property (mappings cfg) (property_key (of_field model)))
           (JString (default_model cfg))"

definition worker_config :: model_config where
  "worker_config =
     \<lparr> mappings = map_of
         [(''gpt-3.5-turbo'', ''meta/llama-2-7b-chat''),
          (''gpt-3.5-turbo-16k'', ''meta/llama-2-7b-chat''),
          (''gpt-4'', ''meta/llama-2-70b-chat''),
          (''gpt-4-turbo'', ''meta/llama-2-70b-chat''),
          (''gpt-4-turbo-preview'', ''meta/llama-2-70b-chat''),
          (''gpt-4-32k'', ''meta/llama-2-70b-chat''),
          (''text-davinci-003'', ''meta/llama-2-7b-chat''),
          (''text-davinci-002'', ''meta/llama-2-7b-chat''),
          (''text-curie-001'', ''meta/llama-2-7b-chat''),
          (''text-babbage-001'', ''meta/llama-2-7b-chat''),
          (''text-ada-001'', ''meta/llama-2-7b-chat'')],
       default_model = ''meta/llama-2-7b-chat'' \<rparr>"

definition modelVersions :: "string \<rightharpoonup> string" where
  "modelVersions = map_of
     [(''meta/llama-2-7b-chat'',
       ''13c3cdee13ee059ab779f0291d29054dab00a47dad8261375654de5540165fb0''),
      (''meta/llama-2-70b-chat'',
       ''02e509c789964a7ea8736978a43525956ef40397be9033abf9fd2badfe68c9e3'')]"

definition getModelVersion :: "js_value \<Rightarrow> js_value" where
  "getModelVersion model =
     js_or (get_property modelVersions (property_key model))
           (get_property modelVersions ''meta/llama-2-7b-chat'')"

section \<open>Prompt construction\<close>

record message =
  role :: string
  content :: string

text \<open>One pass of the loop body of \<open>convertMessagesToPrompt\<close>.\<close>

definition append_message :: "string \<Rightarrow> message \<Rightarrow> string" where
  "append_message prompt m =
     (if role m = ''system'' then prompt @ ''System: '' @ content m @ ''\<newline>\<newline>''
      else if role m = ''user'' then prompt @ ''Human: '' @ content m @ ''\<newline>\<newline>''
      else if role m = ''assistant'' then
        prompt @ ''Assistant: '' @ content m @ ''\<newline>\<newline>''
      else prompt)"

definition convertMessagesToPrompt :: "message list \<Rightarrow> string" where
  "convertMessagesToPrompt messages = foldl append_message [] messages @ ''Assistant: ''"

text \<open>The prompt as the specification words it: one fragment per message, then the cue.\<close>

definition spec_fragment :: "message \<Rightarrow> string" where
  "spec_fragment m =
     (if role m = ''system'' then ''System: '' @ content m @ ''\<newline>\<newline>''
      else if role m = ''user'' then ''Human: '' @ content m @ ''\<newline>\<newline>''
      else if role m = ''assistant'' then ''Assistant: '' @ content m @ ''\<newline>\<newline>''
      else [])"

definition spec_compile :: "message list \<Rightarrow> string" where
  "spec_compile messages = concat (map spec_fragment messages) @ ''Assistant: ''"

section \<open>Errors, backend output and responses\<close>

text \<open>
  A thrown value is an \<open>Error\<close> object with its message. \<open>TypeError\<close> and \<open>SyntaxError\<close>
  are raised by the runtime; their messages are the engine's.
\<close>

datatype js_error =
    Error string
  | TypeError string
  | SyntaxError string

fun error_message :: "js_error \<Rightarrow> string" where
  "error_message (Error m) = m"
| "error_message (TypeError m) = m"
| "error_message (SyntaxError m) = m"

text \<open>
  The backend's output is one text or an array of texts; \<open>None\<close> is an output that is
  \<open>undefined\<close> (a job record without one).
\<close>

datatype backend_output = Single string | Fragments "string list"

text \<open>\<open>Array.isArray(output) ? output.join('') : output\<close>\<close>

definition join_output :: "backend_output option \<Rightarrow> string option" where
  "join_output out =
     (case out of
        None \<Rightarrow> None
      | Some (Single s) \<Rightarrow> Some s
      | Some (Fragments fs) \<Rightarrow> Some (concat fs))"

text \<open>\<open>content.trim()\<close>: a method call on \<open>undefined\<close> raises a \<open>TypeError\<close>.\<close>

definition trim_content :: "string option \<Rightarrow> js_error + string" where
  "trim_content c =
     (case c of
        None \<Rightarrow> Inl (TypeError ''Cannot read properties of undefined (reading 'trim')'')
      | Some s \<Rightarrow> Inr (trim s))"

datatype choice =
    Message string string
  | Delta string string
  | Text string

record usage =
  prompt_tokens :: nat
  completion_tokens :: nat
  total_tokens :: nat

record envelope =
  env_id :: string
  env_object :: string
  env_created :: nat
  env_model :: "string option"
  env_choice :: choice
  env_index :: nat
  env_finish_reason :: string
  env_usage :: "usage option"

record error_body =
  err_message :: string
  err_type :: string
  err_code :: string

datatype body = Success envelope | Failure error_body | NoBody

datatype framing = JsonBody | EventStream | NoContent

record reply =
  status :: nat
  framing :: framing
  body :: body

text \<open>The two readings of \<open>Date.now()\<close> a response takes, in milliseconds.\<close>

record clock =
  id_ms :: nat
  created_ms :: nat

record usage_arg =
  arg_prompt_tokens :: "nat option"
  arg_completion_tokens :: "nat option"
  arg_total_tokens :: "nat option"

definition no_usage :: usage_arg where
  "no_usage =
     \<lparr> arg_prompt_tokens = None, arg_completion_tokens = None, arg_total_tokens = None \<rparr>"

text \<open>\<open>n || 0\<close> on a number that may be \<open>undefined\<close>.\<close>

definition or_zero :: "nat option \<Rightarrow> nat" where
  "or_zero v = (case v of None \<Rightarrow> 0 | Some n \<Rightarrow> n)"

definition formatAsOpenAIResponse ::
  "clock \<Rightarrow> backend_output option \<Rightarrow> string option \<Rightarrow> usage_arg \<Rightarrow> js_error + envelope" where
  "formatAsOpenAIResponse clk replicateOutput model usage =
     (let content = join_output replicateOutput in
      case trim_content content of
        Inl e \<Rightarrow> Inl e
      | Inr trimmed \<Rightarrow>
          Inr \<lparr> env_id = ''chatcmpl-'' @ string_of_nat (id_ms clk),
                env_object = ''chat.completion'',
                env_created = created_ms clk div 1000,
                env_model = model,
                env_choice = Message ''assistant'' trimmed,
                env_index = 0,
                env_finish_reason = ''stop'',
                env_usage =
                  Some \<lparr> prompt_tokens = or_zero (arg_prompt_tokens usage),
                         completion_tokens = or_zero (arg_completion_tokens usage),
                         total_tokens = or_zero (arg_total_tokens usage) \<rparr> \<rparr>)"

text \<open>The chunk built in the streaming branch of the chat handlers.\<close>

definition streamResponse :: "clock \<Rightarrow> backend_output option \<Rightarrow> string option \<Rightarrow> js_error + envelope" where
  "streamResponse clk out model =
     (let content = join_output out in
      case trim_content content of
        Inl e \<Rightarrow> Inl e
      | Inr trimmed \<Rightarrow>
          Inr \<lparr> env_id = ''chatcmpl-'' @ string_of_nat (id_ms clk),
                env_object = ''chat.completion.chunk'',
                env_created = created_ms clk div 1000,
                env_model = model,
                env_choice = Delta ''assistant'' trimmed,
                env_index = 0,
                env_finish_reason = ''stop'',
                env_usage = None \<rparr>)"

text \<open>The response built by the legacy completion handlers.\<close>

definition textCompletion :: "clock \<Rightarrow> backend_output option \<Rightarrow> string option \<Rightarrow> js_error + envelope" where
  "textCompletion clk out model =
     (let content = join_output out in
      case trim_content content of
        Inl e \<Rightarrow> Inl e
      | Inr trimmed \<Rightarrow>
          Inr \<lparr> env_id = ''cmpl-'' @ string_of_nat (id_ms clk),
                env_object = ''text_completion'',
                env_created = created_ms clk div 1000,
                env_model = model,
                env_choice = Text trimmed,
                env_index = 0,
                env_finish_reason = ''stop'',
                env_usage =
                  Some \<lparr> prompt_tokens = 0, completion_tokens = 0, total_tokens = 0 \<rparr> \<rparr>)"

definition sendJsonResponse :: "nat \<Rightarrow> body \<Rightarrow> reply" where
  "sendJsonResponse statusCode data = \<lparr> status = statusCode, framing = JsonBody, body = data \<rparr>"

definition sendStreamingResponse :: "envelope \<Rightarrow> reply" where
  "sendStreamingResponse data = \<lparr> status = 200, framing = EventStream, body = Success data \<rparr>"

definition error_reply :: "nat \<Rightarrow> string \<Rightarrow> string \<Rightarrow> string \<Rightarrow> reply" where
  "error_reply statusCode msg ty code =
     sendJsonResponse statusCode
       (Failure \<lparr> err_message = msg, err_type = ty, err_code = code \<rparr>)"

text \<open>The two error replies of the \<open>catch\<close> blocks.\<close>

definition internal_error :: reply where
  "internal_error =
     error_reply 500 ''Internal server error'' ''server_error'' ''internal_error''"

definition upstream_error :: reply where
  "upstream_error =
     error_reply 502 ''Replicate API error'' ''upstream_error'' ''replicate_error''"

text \<open>The \<open>catch\<close> block of the handlers of \<open>src/index.js\<close> and of the basic worker.\<close>

definition catch_basic :: "js_error \<Rightarrow> reply" where
  "catch_basic e = internal_error"

text \<open>The \<open>catch\<close> block of the handlers of the logging server and the logging worker.\<close>

definition catch_classified :: "js_error \<Rightarrow> reply" where
  "catch_classified e =
     (if error_message e \<noteq> [] \<and> str_includes (error_message e) ''Replicate''
      then upstream_error
      else internal_error)"

text \<open>
  The text of an output as the specification words it: fragments put together in order
  with nothing between them, a single text as it is.
\<close>

definition spec_normalize :: "backend_output \<Rightarrow> string" where
  "spec_normalize out = (case out of Single s \<Rightarrow> s | Fragments fs \<Rightarrow> foldr (@) fs [])"

section \<open>Requests and the backend\<close>

text \<open>
  A parsed request body. A field that is absent is \<open>None\<close>; a field that is present has
  the type the API documents for it.
\<close>

record chat_body =
  c_model :: "string option"
  c_messages :: "message list option"
  c_max_tokens :: "int option"
  c_temperature :: "rat option"
  c_stream :: "bool option"

record legacy_body =
  l_model :: "string option"
  l_prompt :: "string option"
  l_max_tokens :: "int option"
  l_temperature :: "rat option"

text \<open>A destructuring default: it applies to a field that is \<open>undefined\<close>.\<close>

definition default_to :: "'a \<Rightarrow> 'a option \<Rightarrow> 'a" where
  "default_to d v = (case v of None \<Rightarrow> d | Some x \<Rightarrow> x)"

text \<open>\<open>!v\<close> on a text that may be \<open>undefined\<close>: true when it is absent or empty.\<close>

definition falsy_text :: "string option \<Rightarrow> bool" where
  "falsy_text v = (case v of None \<Rightarrow> True | Some s \<Rightarrow> s = [])"

record prediction_input =
  in_prompt :: "string option"
  in_max_new_tokens :: int
  in_temperature :: rat

record http_request =
  req_method :: string
  req_url :: string
  req_headers :: "(string \<times> string) list"
  req_body :: "(js_value \<times> prediction_input) option"

text \<open>
  What a handler does to the outside, in order: a call of the SDK's \<open>replicate.run\<close>, a
  \<open>fetch\<close>, or a \<open>setTimeout\<close> wait of so many milliseconds.
\<close>

datatype event =
    Run js_value prediction_input
  | Fetch http_request
  | Sleep nat

text \<open>
  \<open>replicate.run\<close> belongs to the SDK: it is a parameter that returns the output or
  the error it throws.
\<close>

type_synonym sdk = "js_value \<Rightarrow> prediction_input \<Rightarrow> js_error + backend_output option"

text \<open>A job record as the backend's JSON gives it.\<close>

record prediction =
  pred_id :: "string option"
  pred_status :: "string option"
  pred_output :: "backend_output option"
  pred_error :: "string option"

text \<open>
  An HTTP response: its status, its body read as text, and its body read as JSON (the
  message of the \<open>SyntaxError\<close> when it does not parse).
\<close>

record http_response =
  res_status :: nat
  res_text :: string
  res_json :: "string + prediction"

definition ok :: "http_response \<Rightarrow> bool" where
  "ok r = (200 \<le> res_status r \<and> res_status r \<le> 299)"

datatype fetch_result = Rejected js_error | Responded http_response

text \<open>
  The network: what the \<open>n\<close>-th \<open>fetch\<close> of one invocation (counted from 0) answers to
  its request.
\<close>

type_synonym fetch = "nat \<Rightarrow> http_request \<Rightarrow> fetch_result"

definition create_request :: "string option \<Rightarrow> js_value \<Rightarrow> prediction_input \<Rightarrow> http_request" where
  "create_request token model input =
     \<lparr> req_method = ''POST'',
       req_url = ''https://api.replicate.com/v1/predictions'',
       req_headers =
         [(''Authorization'', ''Token '' @ template_text token),
          (''Content-Type'', ''application/json'')],
       req_body = Some (getModelVersion model, input) \<rparr>"

definition poll_request :: "string option \<Rightarrow> prediction \<Rightarrow> http_request" where
  "poll_request token result =
     \<lparr> req_method = ''GET'',
       req_url = ''https://api.replicate.com/v1/predictions/'' @ template_text (pred_id result),
       req_headers = [(''Authorization'', ''Token '' @ template_text token)],
       req_body = None \<rparr>"

definition pending :: "prediction \<Rightarrow> bool" where
  "pending result =
     (pred_status result = Some ''starting'' \<or> pred_status result = Some ''processing'')"

text \<open>The end of \<open>callReplicateAPI\<close>, after the loop.\<close>

definition finish_prediction :: "prediction \<Rightarrow> js_error + backend_output option" where
  "finish_prediction result =
     (if pred_status result = Some ''failed''
      then Inl (Error (''Replicate prediction failed: '' @ template_text (pred_error result)))
      else Inr (pred_output result))"

text \<open>
  The poll loop of the logging worker and what follows it. \<open>pollCount\<close> is the source's
  counter; the submission was fetch 0, so poll \<open>pollCount\<close> is fetch \<open>pollCount\<close>. A loop
  that never ends is \<open>None\<close>.
\<close>

partial_function (option) poll_wrklog ::
  "fetch \<Rightarrow> string option \<Rightarrow> prediction \<Rightarrow> nat \<Rightarrow> event list
     \<Rightarrow> ((js_error + backend_output option) \<times> event list) option" where
  "poll_wrklog fetch token result pollCount trace =
     (if pending result then
        (let req = poll_request token result;
             trace' = trace @ [Sleep 1000, Fetch req]
         in case fetch (Suc pollCount) req of
              Rejected e \<Rightarrow> Some (Inl e, trace')
            | Responded pollResponse \<Rightarrow>
                if \<not> ok pollResponse then
                  Some (Inl (Error (''Replicate polling error: ''
                               @ string_of_nat (res_status pollResponse))), trace')
                else (case res_json pollResponse of
                        Inl m \<Rightarrow> Some (Inl (SyntaxError m), trace')
                      | Inr result' \<Rightarrow> poll_wrklog fetch token result' (Suc pollCount) trace'))
      else Some (finish_prediction result, trace))"

definition callReplicateAPI_wrklog ::
  "fetch \<Rightarrow> string option \<Rightarrow> js_value \<Rightarrow> prediction_input
     \<Rightarrow> ((js_error + backend_output option) \<times> event list) option" where
  "callReplicateAPI_wrklog fetch token model input =
     (let req = create_request token model input in
      case fetch 0 req of
        Rejected e \<Rightarrow> Some (Inl e, [Fetch req])
      | Responded response \<Rightarrow>
          if \<not> ok response then
            Some (Inl (Error (''Replicate API error: '' @ string_of_nat (res_status response)
                         @ '' - '' @ res_text response)), [Fetch req])
          else (case res_json response of
                  Inl m \<Rightarrow> Some (Inl (SyntaxError m), [Fetch req])
                | Inr prediction \<Rightarrow> poll_wrklog fetch token prediction 0 [Fetch req]))"

text \<open>
  The poll loop of the basic worker: the poll response is parsed without a look at its
  status. \<open>n\<close> counts the polls made so far.
\<close>

partial_function (option) poll_wrk ::
  "fetch \<Rightarrow> string option \<Rightarrow> prediction \<Rightarrow> nat \<Rightarrow> event list
     \<Rightarrow> ((js_error + backend_output option) \<times> event list) option" where
  "poll_wrk fetch token result n trace =
     (if pending result then
        (let req = poll_request token result;
             trace' = trace @ [Sleep 1000, Fetch req]
         in case fetch (Suc n) req of
              Rejected e \<Rightarrow> Some (Inl e, trace')
            | Responded pollResponse \<Rightarrow>
                (case res_json pollResponse of
                   Inl m \<Rightarrow> Some (Inl (SyntaxError m), trace')
                 | Inr result' \<Rightarrow> poll_wrk fetch token result' (Suc n) trace'))
      else Some (finish_prediction result, trace))"

definition callReplicateAPI_wrk ::
  "fetch \<Rightarrow> string option \<Rightarrow> js_value \<Rightarrow> prediction_input
     \<Rightarrow> ((js_error + backend_output option) \<times> event list) option" where
  "callReplicateAPI_wrk fetch token model input =
     (let req = create_request token model input in
      case fetch 0 req of
        Rejected e \<Rightarrow> Some (Inl e, [Fetch req])
      | Responded response \<Rightarrow>
          if \<not> ok response then
            Some (Inl (Error (''Replicate API error: '' @ string_of_nat (res_status response))),
                  [Fetch req])
          else (case res_json response of
                  Inl m \<Rightarrow> Some (Inl (SyntaxError m), [Fetch req])
                | Inr prediction \<Rightarrow> poll_wrk fetch token prediction 0 [Fetch req]))"

section \<open>The handlers\<close>

text \<open>
  A handler is a \<open>try\<close> block and a \<open>catch\<close> block. The \<open>try\<close> block ends in the reply
  it sends or in the error it throws; either way it leaves the trace of what it did.
\<close>

type_synonym attempt = "(js_error + reply) \<times> event list"

definition try_catch :: "(js_error \<Rightarrow> reply) \<Rightarrow> attempt \<Rightarrow> reply \<times> event list" where
  "try_catch handler a =
     (case fst a of Inl e \<Rightarrow> (handler e, snd a) | Inr r \<Rightarrow> (r, snd a))"

text \<open>\<open>await replicate.run(model, {input})\<close>, then the rest of the block.\<close>

definition run_then ::
  "sdk \<Rightarrow> js_value \<Rightarrow> prediction_input \<Rightarrow> (backend_output option \<Rightarrow> js_error + reply) \<Rightarrow> attempt" where
  "run_then run model input rest =
     (case run model input of
        Inl e \<Rightarrow> (Inl e, [Run model input])
      | Inr out \<Rightarrow> (rest out, [Run model input]))"

text \<open>\<open>await callReplicateAPI(model, input, env)\<close>, then the rest of the block.\<close>

definition call_then ::
  "((js_error + backend_output option) \<times> event list) option
     \<Rightarrow> (backend_output option \<Rightarrow> js_error + reply) \<Rightarrow> attempt option" where
  "call_then called rest =
     (case called of
        None \<Rightarrow> None
      | Some (Inl e, trace) \<Rightarrow> Some (Inl e, trace)
      | Some (Inr out, trace) \<Rightarrow> Some (rest out, trace))"

definition send_chat :: "clock \<Rightarrow> string option \<Rightarrow> backend_output option \<Rightarrow> js_error + reply" where
  "send_chat clk model out =
     map_sum id (\<lambda>response. sendJsonResponse 200 (Success response))
       (formatAsOpenAIResponse clk out model no_usage)"

definition send_stream :: "clock \<Rightarrow> string option \<Rightarrow> backend_output option \<Rightarrow> js_error + reply" where
  "send_stream clk model out = map_sum id sendStreamingResponse (streamResponse clk out model)"

definition send_text :: "clock \<Rightarrow> string option \<Rightarrow> backend_output option \<Rightarrow> js_error + reply" where
  "send_text clk model out =
     map_sum id (\<lambda>response. sendJsonResponse 200 (Success response))
       (textCompletion clk out model)"

definition chat_input :: "chat_body \<Rightarrow> string \<Rightarrow> prediction_input" where
  "chat_input b prompt =
     \<lparr> in_prompt = Some prompt,
       in_max_new_tokens = default_to 500 (c_max_tokens b),
       in_temperature = default_to (7 / 10) (c_temperature b) \<rparr>"

definition legacy_input :: "legacy_body \<Rightarrow> prediction_input" where
  "legacy_input b =
     \<lparr> in_prompt = l_prompt b,
       in_max_new_tokens = default_to 500 (l_max_tokens b),
       in_temperature = default_to (7 / 10) (l_temperature b) \<rparr>"

definition missing_fields :: "string \<Rightarrow> reply" where
  "missing_fields what =
     error_reply 400 (''Missing required fields: model and '' @ what @ '' are required'')
       ''invalid_request_error'' ''missing_required_fields''"

text \<open>
  \<open>convertMessagesToPrompt(messages)\<close> on a field that may be absent: \<open>for ... of\<close> over
  \<open>undefined\<close> raises a \<open>TypeError\<close>.
\<close>

definition prompt_of_messages :: "message list option \<Rightarrow> js_error + string" where
  "prompt_of_messages messages =
     (case messages of
        None \<Rightarrow> Inl (TypeError ''messages is not iterable'')
      | Some ms \<Rightarrow> Inr (convertMessagesToPrompt ms))"

subsection \<open>The server of \<open>src/index.js\<close>\<close>

definition handleChatCompletions_srv ::
  "model_config \<Rightarrow> sdk \<Rightarrow> clock \<Rightarrow> js_error + chat_body \<Rightarrow> reply \<times> event list" where
  "handleChatCompletions_srv cfg run clk parsed =
     try_catch catch_basic
       (case parsed of
          Inl e \<Rightarrow> (Inl e, [])
        | Inr b \<Rightarrow>
            let replicateModel = resolve_model cfg (c_model b) in
            (case prompt_of_messages (c_messages b) of
               Inl e \<Rightarrow> (Inl e, [])
             | Inr prompt \<Rightarrow>
                 if default_to False (c_stream b)
                 then run_then run replicateModel (chat_input b prompt)
                        (send_stream clk (c_model b))
                 else run_then run replicateModel (chat_input b prompt)
                        (send_chat clk (c_model b))))"

definition handleCompletions_srv ::
  "model_config \<Rightarrow> sdk \<Rightarrow> clock \<Rightarrow> js_error + legacy_body \<Rightarrow> reply \<times> event list" where
  "handleCompletions_srv cfg run clk parsed =
     try_catch catch_basic
       (case parsed of
          Inl e \<Rightarrow> (Inl e, [])
        | Inr b \<Rightarrow>
            let replicateModel = resolve_model cfg (l_model b) in
            (case l_prompt b of
               None \<Rightarrow>
                 (Inl (TypeError
                    ''Cannot read properties of undefined (reading 'substring')''), [])
             | Some prompt \<Rightarrow>
                 run_then run replicateModel (legacy_input b) (send_text clk (l_model b))))"

subsection \<open>The server with logging\<close>

definition handleChatCompletions_srvlog ::
  "model_config \<Rightarrow> sdk \<Rightarrow> clock \<Rightarrow> js_error + chat_body \<Rightarrow> reply \<times> event list" where
  "handleChatCompletions_srvlog cfg run clk parsed =
     try_catch catch_classified
       (case parsed of
          Inl e \<Rightarrow> (Inl e, [])
        | Inr b \<Rightarrow>
            if falsy_text (c_model b) \<or> c_messages b = None
            then (Inr (missing_fields ''messages''), [])
            else
              let replicateModel = resolve_model cfg (c_model b) in
              (case prompt_of_messages (c_messages b) of
                 Inl e \<Rightarrow> (Inl e, [])
               | Inr prompt \<Rightarrow>
                   if default_to False (c_stream b)
                   then run_then run replicateModel (chat_input b prompt)
                          (send_stream clk (c_model b))
                   else run_then run replicateModel (chat_input b prompt)
                          (send_chat clk (c_model b))))"

definition handleCompletions_srvlog ::
  "model_config \<Rightarrow> sdk \<Rightarrow> clock \<Rightarrow> js_error + legacy_body \<Rightarrow> reply \<times> event list" where
  "handleCompletions_srvlog cfg run clk parsed =
     try_catch catch_classified
       (case parsed of
          Inl e \<Rightarrow> (Inl e, [])
        | Inr b \<Rightarrow>
            if falsy_text (l_model b) \<or> falsy_text (l_prompt b)
            then (Inr (missing_fields ''prompt''), [])
            else
              let replicateModel = resolve_model cfg (l_model b)
              in run_then run replicateModel (legacy_input b) (send_text clk (l_model b)))"

subsection \<open>The worker with logging\<close>

definition handleChatCompletions_wrklog ::
  "fetch \<Rightarrow> string option \<Rightarrow> clock \<Rightarrow> js_error + chat_body \<Rightarrow> (reply \<times> event list) option" where
  "handleChatCompletions_wrklog fetch token clk parsed =
     map_option (try_catch catch_classified)
       (case parsed of
          Inl e \<Rightarrow> Some (Inl e, [])
        | Inr b \<Rightarrow>
            if falsy_text (c_model b) \<or> c_messages b = None
            then Some (Inr (missing_fields ''messages''), [])
            else
              let replicateModel = resolve_model worker_config (c_model b) in
              (case prompt_of_messages (c_messages b) of
                 Inl e \<Rightarrow> Some (Inl e, [])
               | Inr prompt \<Rightarrow>
                   let input = chat_input b prompt
                   in if default_to False (c_stream b)
                      then call_then (callReplicateAPI_wrklog fetch token replicateModel input)
                             (send_stream clk (c_model b))
                      else call_then (callReplicateAPI_wrklog fetch token replicateModel input)
                             (send_chat clk (c_model b))))"

definition handleCompletions_wrklog ::
  "fetch \<Rightarrow> string option \<Rightarrow> clock \<Rightarrow> js_error + legacy_body \<Rightarrow> (reply \<times> event list) option" where
  "handleCompletions_wrklog fetch token clk parsed =
     map_option (try_catch catch_classified)
       (case parsed of
          Inl e \<Rightarrow> Some (Inl e, [])
        | Inr b \<Rightarrow>
            if falsy_text (l_model b) \<or> falsy_text (l_prompt b)
            then Some (Inr (missing_fields ''prompt''), [])
            else
              let replicateModel = resolve_model worker_config (l_model b);
                  input = legacy_input b
              in call_then (callReplicateAPI_wrklog fetch token replicateModel input)
                   (send_text clk (l_model b)))"

subsection \<open>The basic worker\<close>

definition handleChatCompletions_wrk ::
  "fetch \<Rightarrow> string option \<Rightarrow> clock \<Rightarrow> js_error + chat_body \<Rightarrow> (reply \<times> event list) option" where
  "handleChatCompletions_wrk fetch token clk parsed =
     map_option (try_catch catch_basic)
       (case parsed of
          Inl e \<Rightarrow> Some (Inl e, [])
        | Inr b \<Rightarrow>
            let replicateModel = resolve_model worker_config (c_model b) in
            (case prompt_of_messages (c_messages b) of
               Inl e \<Rightarrow> Some (Inl e, [])
             | Inr prompt \<Rightarrow>
                 let input = chat_input b prompt
                 in if default_to False (c_stream b)
                    then call_then (callReplicateAPI_wrk fetch token replicateModel input)
                           (send_stream clk (c_model b))
                    else call_then (callReplicateAPI_wrk fetch token replicateModel input)
                           (send_chat clk (c_model b))))"

definition handleCompletions_wrk ::
  "fetch \<Rightarrow> string option \<Rightarrow> clock \<Rightarrow> js_error + legacy_body \<Rightarrow> (reply \<times> event list) option" where
  "handleCompletions_wrk fetch token clk parsed =
     map_option (try_catch catch_basic)
       (case parsed of
          Inl e \<Rightarrow> Some (Inl e, [])
        | Inr b \<Rightarrow>
            let replicateModel = resolve_model worker_config (l_model b);
                input = legacy_input b
            in call_then (callReplicateAPI_wrk fetch token replicateModel input)
                 (send_text clk (l_model b)))"

section \<open>Authentication and routing\<close>

datatype auth_result = AuthSuccess | AuthFailure error_body nat

text \<open>
  \<open>authHeader\<close> is the request's \<open>Authorization\<close> header and \<open>expectedApiKey\<close> the
  configured \<open>PROXY_API_KEY\<close>, each \<open>None\<close> when it is not there.
\<close>

definition authenticateApiKey :: "string option \<Rightarrow> string option \<Rightarrow> auth_result" where
  "authenticateApiKey authHeader expectedApiKey =
     (if falsy_text expectedApiKey then
        AuthFailure \<lparr> err_message = ''Proxy API key not configured'',
                      err_type = ''configuration_error'',
                      err_code = ''missing_api_key'' \<rparr> 500
      else
        (case authHeader of
           None \<Rightarrow>
             AuthFailure \<lparr> err_message = ''Missing or invalid authorization header'',
                           err_type = ''authentication_error'',
                           err_code = ''invalid_api_key'' \<rparr> 401
         | Some header \<Rightarrow>
             if header = [] \<or> \<not> startsWith header ''Bearer '' then
               AuthFailure \<lparr> err_message = ''Missing or invalid authorization header'',
                             err_type = ''authentication_error'',
                             err_code = ''invalid_api_key'' \<rparr> 401
             else
               let apiKey = substring_from header 7 in
               if Some apiKey \<noteq> expectedApiKey then
                 AuthFailure \<lparr> err_message = ''Invalid API key'',
                               err_type = ''authentication_error'',
                               err_code = ''invalid_api_key'' \<rparr> 401
               else AuthSuccess))"

record request =
  req_verb :: string
  req_pathname :: string
  req_authorization :: "string option"

datatype handler = HandleHealth | HandleChatCompletions | HandleCompletions | HandleModels

text \<open>The router either replies itself or hands the request to a handler.\<close>

datatype routed = Replied reply | Dispatched handler

definition not_found :: reply where
  "not_found = error_reply 404 ''Not found'' ''invalid_request_error'' ''not_found''"

definition handleRequest :: "string option \<Rightarrow> request \<Rightarrow> routed" where
  "handleRequest expectedApiKey req =
     (let pathname = req_pathname req; method = req_verb req in
      if method = ''OPTIONS'' then
        Replied \<lparr> status = 200, framing = NoContent, body = NoBody \<rparr>
      else if pathname = ''/health'' \<and> method = ''GET'' then Dispatched HandleHealth
      else if startsWith pathname ''/v1/'' then
        (case authenticateApiKey (req_authorization req) expectedApiKey of
           AuthFailure err statusCode \<Rightarrow> Replied (sendJsonResponse statusCode (Failure err))
         | AuthSuccess \<Rightarrow>
             if pathname = ''/v1/chat/completions'' \<and> method = ''POST''
             then Dispatched HandleChatCompletions
             else if pathname = ''/v1/completions'' \<and> method = ''POST''
             then Dispatched HandleCompletions
             else if pathname = ''/v1/models'' \<and> method = ''GET''
             then Dispatched HandleModels
             else Replied not_found)
      else Replied not_found)"

text \<open>The reply to a request that needs the proxy's key when none is configured.\<close>

definition unconfigured :: reply where
  "unconfigured =
     error_reply 500 ''Proxy API key not configured'' ''configuration_error'' ''missing_api_key''"

section \<open>Traces and scripted backends\<close>

text \<open>The waits of a trace, in order, each with its length in milliseconds.\<close>

fun waits :: "event list \<Rightarrow> nat list" where
  "waits [] = []"
| "waits (Sleep ms # es) = ms # waits es"
| "waits (e # es) = waits es"

text \<open>
  The trace expected of \<open>n\<close> polls of the jobs \<open>ps 0\<close>, ..., \<open>ps (n - 1)\<close>: for each, one wait
  of a second and then a \<open>GET\<close> of the job's own address, the one that ends in its
  identifier.
\<close>

definition poll_trace :: "string option \<Rightarrow> (nat \<Rightarrow> prediction) \<Rightarrow> nat \<Rightarrow> event list" where
  "poll_trace token ps n =
     concat (map (\<lambda>k. [Sleep 1000,
                        Fetch \<lparr> req_method = ''GET'',
                                req_url = ''https://api.replicate.com/v1/predictions/''
                                            @ template_text (pred_id (ps k)),
                                req_headers = [(''Authorization'', ''Token '' @ template_text token)],
                                req_body = None \<rparr>])
               [0..<n])"

text \<open>
  A backend for concrete runs: it answers the fetches in order from a script, whatever
  they ask, and refuses the connection once the script is used up.
\<close>

definition job :: "string \<Rightarrow> backend_output option \<Rightarrow> string option \<Rightarrow> prediction" where
  "job st out err = \<lparr> pred_id = Some ''p1'', pred_status = Some st, pred_output = out, pred_error = err \<rparr>"

definition answer :: "nat \<Rightarrow> prediction \<Rightarrow> fetch_result" where
  "answer code p = Responded \<lparr> res_status = code, res_text = [], res_json = Inr p \<rparr>"

definition scripted :: "fetch_result list \<Rightarrow> fetch" where
  "scripted rs n req = (if n < length rs then rs ! n else Rejected (TypeError ''fetch failed''))"

text \<open>The table and the default that the README documents for \<open>models.json\<close>.\<close>

definition readme_config :: model_config where
  "readme_config =
     \<lparr> mappings = map_of
         [(''gpt-3.5-turbo'', ''meta/llama-2-7b-chat''),
          (''gpt-3.5-turbo-16k'', ''meta/llama-2-7b-chat''),
          (''gpt-4'', ''meta/llama-2-70b-chat''),
          (''gpt-4-turbo'', ''meta/llama-2-70b-chat''),
          (''gpt-4-32k'', ''meta/llama-2-70b-chat''),
          (''text-davinci-003'', ''meta/llama-2-7b-chat''),
          (''text-davinci-002'', ''meta/llama-2-7b-chat'')],
       default_model = ''meta/llama-2-7b-chat'' \<rparr>"

text \<open>A chat request for \<open>gpt-4\<close> with one user message, and what belongs to it.\<close>

definition gpt4_chat :: chat_body where
  "gpt4_chat =
     \<lparr> c_model = Some ''gpt-4'',
       c_messages = Some [\<lparr> role = ''user'', content = ''hi'' \<rparr>],
       c_max_tokens = None, c_temperature = None, c_stream = None \<rparr>"

definition demo_clock :: clock where
  "demo_clock = \<lparr> id_ms = 1234, created_ms = 5000 \<rparr>"

definition gpt4_envelope :: "string \<Rightarrow> envelope" where
  "gpt4_envelope text =
     \<lparr> env_id = ''chatcmpl-1234'', env_object = ''chat.completion'', env_created = 5,
       env_model = Some ''gpt-4'', env_choice = Message ''assistant'' text, env_index = 0,
       env_finish_reason = ''stop'',
       env_usage = Some \<lparr> prompt_tokens = 0, completion_tokens = 0, total_tokens = 0 \<rparr> \<rparr>"

definition gpt4_input :: prediction_input where
  "gpt4_input =
     \<lparr> in_prompt = Some ''Human: hi\<newline>\<newline>Assistant: '', in_max_new_tokens = 500,
       in_temperature = 7 / 10 \<rparr>"

text \<open>
  An error page of the backend: its body is JSON, but not a job record, so every field
  the poll loop reads from it is \<open>undefined\<close>.
\<close>

definition error_page :: "nat \<Rightarrow> fetch_result" where
  "error_page code =
     Responded \<lparr> res_status = code, res_text = ''Internal Server Error'',
                 res_json = Inr \<lparr> pred_id = None, pred_status = None, pred_output = None,
                                  pred_error = None \<rparr> \<rparr>"

text \<open>A chat request whose message list is empty, and one without a model.\<close>

definition empty_chat :: chat_body where
  "empty_chat =
     \<lparr> c_model = Some ''gpt-4'', c_messages = Some [], c_max_tokens = None,
       c_temperature = None, c_stream = None \<rparr>"

definition modelless_chat :: chat_body where
  "modelless_chat =
     \<lparr> c_model = None, c_messages = Some [\<lparr> role = ''user'', content = ''hi'' \<rparr>],
       c_max_tokens = None, c_temperature = None, c_stream = None \<rparr>"

text \<open>
  An SDK that answers every call with one text, one that throws, and one whose answer
  has no output.
\<close>

definition hello_sdk :: sdk where
  "hello_sdk model input = Inr (Some (Single '' Hello! ''))"

definition failing_sdk :: sdk where
  "failing_sdk model input = Inl (Error ''Prediction failed: boom'')"


text \<open>What the two branches on \<open>stream\<close> of a chat handler send.\<close>

definition send_for :: "chat_body \<Rightarrow> clock \<Rightarrow> backend_output option \<Rightarrow> js_error + reply" where
  "send_for b clk =
     (if default_to False (c_stream b) then send_stream clk (c_model b)
      else send_chat clk (c_model b))"

text \<open>The backend input of a chat request without messages.\<close>

definition empty_input :: prediction_input where
  "empty_input =
     \<lparr> in_prompt = Some ''Assistant: '', in_max_new_tokens = 500, in_temperature = 7 / 10 \<rparr>"

text \<open>A legacy request whose prompt is the empty text.\<close>

definition promptless :: legacy_body where
  "promptless =
     \<lparr> l_model = Some ''text-davinci-003'', l_prompt = Some [], l_max_tokens = None,
       l_temperature = None \<rparr>"

text \<open>
  What a backend does, as a hypothesis on the network: the submission is accepted with
  the job \<open>p0\<close>; the first \<open>n\<close> polls are accepted, poll \<open>k\<close> finding the job \<open>ps k\<close> pending
  and returning the job \<open>ps (k + 1)\<close>.
\<close>

definition accepted :: "fetch \<Rightarrow> string option \<Rightarrow> js_value \<Rightarrow> prediction_input \<Rightarrow> prediction \<Rightarrow> bool" where
  "accepted fetch token model input p0 =
     (case fetch 0 (create_request token model input) of
        Responded r \<Rightarrow> ok r \<and> res_json r = Inr p0
      | Rejected e \<Rightarrow> False)"

definition polled :: "fetch \<Rightarrow> string option \<Rightarrow> (nat \<Rightarrow> prediction) \<Rightarrow> nat \<Rightarrow> bool" where
  "polled fetch token ps n =
     list_all (\<lambda>k. pending (ps k) \<and>
                 (case fetch (Suc k) (poll_request token (ps k)) of
                    Responded r \<Rightarrow> ok r \<and> res_json r = Inr (ps (Suc k))
                  | Rejected e \<Rightarrow> False))
       [0..<n]"

text \<open>
  A reply is formatted when it is a success envelope with status 200 or one of the
  listed error replies.
\<close>

definition formatted_as :: "reply list \<Rightarrow> reply \<Rightarrow> bool" where
  "formatted_as errors r =
     (case body r of
        Success env \<Rightarrow> status r = 200
      | Failure err \<Rightarrow> r \<in> set errors
      | NoBody \<Rightarrow> False)"


text \<open>A backend whose job has failed by the time the submission is answered.\<close>

definition failed_net :: fetch where
  "failed_net = scripted [answer 201 (job ''failed'' None (Some ''boom''))]"


text \<open>
  A backend whose job is \<open>starting\<close> when the submission is answered, \<open>processing\<close> at the
  first poll and \<open>succeeded\<close> with the output \<open>X\<close> at the second; the jobs it shows, and
  the trace of an invocation that sees them.
\<close>

definition three_step_net :: fetch where
  "three_step_net =
     scripted [answer 201 (job ''starting'' None None),
               answer 200 (job ''processing'' None None),
               answer 200 (job ''succeeded'' (Some (Single ''X'')) None)]"

definition three_jobs :: "nat \<Rightarrow> prediction" where
  "three_jobs k =
     [job ''starting'' None None, job ''processing'' None None,
      job ''succeeded'' (Some (Single ''X'')) None] ! k"

definition three_step_trace :: "event list" where
  "three_step_trace =
     [Fetch \<lparr> req_method = ''POST'',
              req_url = ''https://api.replicate.com/v1/predictions'',
              req_headers = [(''Authorization'', ''Token r8_token''),
                             (''Content-Type'', ''application/json'')],
              req_body =
                Some (JString ''02e509c789964a7ea8736978a43525956ef40397be9033abf9fd2badfe68c9e3'',
                      gpt4_input) \<rparr>,
      Sleep 1000,
      Fetch \<lparr> req_method = ''GET'',
              req_url = ''https://api.replicate.com/v1/predictions/p1'',
              req_headers = [(''Authorization'', ''Token r8_token'')],
              req_body = None \<rparr>,
      Sleep 1000,
      Fetch \<lparr> req_method = ''GET'',
              req_url = ''https://api.replicate.com/v1/predictions/p1'',
              req_headers = [(''Authorization'', ''Token r8_token'')],
              req_body = None \<rparr>]"

section \<open>Facts about strings\<close>

text \<open>The definitions that a concrete run of a handler, or of an invoker, unfolds.\<close>

lemmas run_defs =
  falsy_text_def prompt_of_messages_def convertMessagesToPrompt_def append_message_def
  resolve_model_def get_property_def js_or_def of_field_def object_prototype_names_def
  default_to_def run_then_def call_then_def chat_input_def legacy_input_def
  send_chat_def send_stream_def send_text_def
  formatAsOpenAIResponse_def streamResponse_def textCompletion_def
  join_output_def trim_content_def trim_def is_js_space_def
  no_usage_def or_zero_def try_catch_def catch_basic_def catch_classified_def
  internal_error_def upstream_error_def
  missing_fields_def error_reply_def sendJsonResponse_def sendStreamingResponse_def
  Let_def

lemmas net_defs =
  callReplicateAPI_wrk_def callReplicateAPI_wrklog_def poll_wrk.simps poll_wrklog.simps
  scripted_def answer_def ok_def job_def pending_def finish_prediction_def
  template_text_def create_request_def poll_request_def getModelVersion_def modelVersions_def

lemma rev_dropWhile_split:
  "xs = rev (dropWhile P (rev xs)) @ rev (takeWhile P (rev xs))"
  by (metis rev_append rev_rev_ident takeWhile_dropWhile_id)

lemma dropWhile_trim:
  "dropWhile is_js_space s
     = trim s @ rev (takeWhile is_js_space (rev (dropWhile is_js_space s)))"
  unfolding trim_def by (rule rev_dropWhile_split)

lemma trim_decomposition:
  "\<exists>l r. s = l @ trim s @ r \<and> list_all is_js_space l \<and> list_all is_js_space r"
proof -
  let ?d = "dropWhile is_js_space s"
  let ?l = "takeWhile is_js_space s"
  let ?r = "rev (takeWhile is_js_space (rev ?d))"
  have "s = ?l @ ?d" by simp
  then have "s = ?l @ trim s @ ?r" using dropWhile_trim[of s] by simp
  moreover have "list_all is_js_space ?l"
    by (simp add: list_all_iff) (meson set_takeWhileD)
  moreover have "list_all is_js_space ?r"
    by (simp add: list_all_iff) (meson set_takeWhileD)
  ultimately show ?thesis by blast
qed

lemma trim_ends:
  "trim s = [] \<or> (\<not> is_js_space (hd (trim s)) \<and> \<not> is_js_space (last (trim s)))"
proof (cases "trim s = []")
  case True then show ?thesis by simp
next
  case False
  let ?d = "dropWhile is_js_space s"
  let ?e = "dropWhile is_js_space (rev ?d)"
  have e: "?e \<noteq> []" using False by (simp add: trim_def)
  then have "\<not> is_js_space (hd ?e)" by (metis hd_dropWhile)
  moreover have "last (trim s) = hd ?e" using e by (simp add: trim_def last_rev)
  ultimately have A: "\<not> is_js_space (last (trim s))" by simp
  have "hd ?d = hd (trim s)" using False dropWhile_trim[of s] by (metis hd_append2)
  moreover have "?d \<noteq> []" using False dropWhile_trim[of s] by (metis append_is_Nil_conv)
  then have "\<not> is_js_space (hd ?d)" by (metis hd_dropWhile)
  ultimately show ?thesis using A by simp
qed

lemma includes_Replicate_prefix: "str_includes (''Replicate'' @ s) ''Replicate''"
  by simp

lemma string_of_nat_500: "string_of_nat 500 = ''500''"
  by (simp add: string_of_nat.simps)

lemma string_of_nat_1234: "string_of_nat 1234 = ''1234''"
  by (simp add: string_of_nat.simps)

lemma map_sum_id_Inr: "map_sum id g x = Inr r \<longleftrightarrow> (\<exists>y. x = Inr y \<and> r = g y)"
  by (cases x) auto

section \<open>The prompt compiler\<close>

lemma foldl_append_message:
  "foldl append_message acc ms = acc @ concat (map spec_fragment ms)"
  by (induction ms arbitrary: acc) (simp_all add: append_message_def spec_fragment_def)

lemma convert_empty: "convertMessagesToPrompt [] = ''Assistant: ''"
  by (simp add: convertMessagesToPrompt_def)

text \<open>
  C4. For every ordered list of messages, the compiled prompt is the concatenation, in
  message order, of the fragment of each message (\<open>System: \<close>, \<open>Human: \<close> or
  \<open>Assistant: \<close>, the content and two newlines; nothing for any other role), followed by
  the cue \<open>Assistant: \<close> with no newline after it.
\<close>

theorem convertMessagesToPrompt_spec:
  "convertMessagesToPrompt messages = spec_compile messages"
  by (simp add: convertMessagesToPrompt_def spec_compile_def foldl_append_message)

section \<open>The response formatter\<close>

lemma join_output_spec_normalize: "join_output (Some out) = Some (spec_normalize out)"
  by (cases out) (simp_all add: join_output_def spec_normalize_def concat_conv_foldr)

text \<open>
  C5. For every backend output the formatter puts into the response content the text
  of the output (fragments concatenated in order with no separator, a single text as it
  is) with its leading and trailing white space removed: only white space is cut off on
  either side, and what is left neither starts nor ends with white space. This holds
  for the chat completion, the chunk and the legacy text completion. The fragments
  a, b, c give abc, and the text hi there between two spaces on each side gives
  hi there.
\<close>

theorem formatter_joins_then_trims:
  "(\<exists>l r. spec_normalize out = l @ trim (spec_normalize out) @ r
           \<and> list_all is_js_space l \<and> list_all is_js_space r)
   \<and> (trim (spec_normalize out) = []
        \<or> (\<not> is_js_space (hd (trim (spec_normalize out)))
            \<and> \<not> is_js_space (last (trim (spec_normalize out)))))
   \<and> map_sum id env_choice (formatAsOpenAIResponse clk (Some out) model usage)
        = Inr (Message ''assistant'' (trim (spec_normalize out)))
   \<and> map_sum id env_choice (streamResponse clk (Some out) model)
        = Inr (Delta ''assistant'' (trim (spec_normalize out)))
   \<and> map_sum id env_choice (textCompletion clk (Some out) model)
        = Inr (Text (trim (spec_normalize out)))
   \<and> spec_normalize (Fragments [''a'', ''b'', ''c'']) = ''abc''
   \<and> trim (spec_normalize (Fragments [''a'', ''b'', ''c''])) = ''abc''
   \<and> trim (spec_normalize (Single ''  hi there  '')) = ''hi there''"
proof -
  have 1: "map_sum id env_choice (formatAsOpenAIResponse clk (Some out) model usage)
        = Inr (Message ''assistant'' (trim (spec_normalize out)))"
    by (simp add: formatAsOpenAIResponse_def join_output_spec_normalize trim_content_def)
  have 2: "map_sum id env_choice (streamResponse clk (Some out) model)
        = Inr (Delta ''assistant'' (trim (spec_normalize out)))"
    by (simp add: streamResponse_def join_output_spec_normalize trim_content_def)
  have 3: "map_sum id env_choice (textCompletion clk (Some out) model)
        = Inr (Text (trim (spec_normalize out)))"
    by (simp add: textCompletion_def join_output_spec_normalize trim_content_def)
  have 4: "spec_normalize (Fragments [''a'', ''b'', ''c'']) = ''abc''"
    by (simp add: spec_normalize_def)
  have 5: "trim (spec_normalize (Fragments [''a'', ''b'', ''c''])) = ''abc''"
    by (simp add: spec_normalize_def trim_def is_js_space_def)
  have 6: "trim (spec_normalize (Single ''  hi there  '')) = ''hi there''"
    by (simp add: spec_normalize_def trim_def is_js_space_def)
  show ?thesis using trim_decomposition[of "spec_normalize out"] trim_ends[of "spec_normalize out"] 1 2 3 4 5 6
    by blast
qed

section \<open>The model resolver\<close>

lemma resolve_model_own:
  "mappings cfg m = Some v \<Longrightarrow> v \<noteq> [] \<Longrightarrow> resolve_model cfg (Some m) = JString v"
  by (simp add: resolve_model_def get_property_def js_or_def of_field_def)

lemma resolve_model_default:
  "mappings cfg m = None \<Longrightarrow> m \<notin> set object_prototype_names
     \<Longrightarrow> resolve_model cfg (Some m) = JString (default_model cfg)"
  by (simp add: resolve_model_def get_property_def js_or_def of_field_def)

text \<open>
  C7. The resolver is meant to return the mapped backend model for an identifier of the
  table and the default for every other. The identifier \<open>constructor\<close> is not in the
  worker's table, yet the property read finds \<open>Object.prototype.constructor\<close>, which is
  truthy: the resolver returns that function, not the default model. The worker then
  falls back to the default model's version; the server calls the SDK with the function
  as the model.
\<close>

theorem resolve_model_inherited_property:
  "mappings worker_config ''constructor'' = None
   \<and> resolve_model worker_config (Some ''constructor'') = JInherited ''constructor''
   \<and> JInherited ''constructor'' \<noteq> JString (default_model worker_config)
   \<and> getModelVersion (resolve_model worker_config (Some ''constructor''))
        = getModelVersion (JString (default_model worker_config))
   \<and> mappings readme_config ''constructor'' = None
   \<and> snd (handleChatCompletions_srvlog readme_config hello_sdk demo_clock
             (Inr (gpt4_chat \<lparr> c_model := Some ''constructor'' \<rparr>)))
        = [Run (JInherited ''constructor'') gpt4_input]"
  by (simp add: handleChatCompletions_srvlog_def gpt4_chat_def gpt4_input_def
        worker_config_def readme_config_def hello_sdk_def demo_clock_def string_of_nat_1234
        getModelVersion_def modelVersions_def run_defs)

section \<open>The unconfigured proxy key\<close>

text \<open>
  C10, as stated, fails for a CORS preflight: an \<open>OPTIONS\<close> request to a path under
  \<open>/v1/\<close> is answered with 200 before authentication is looked at, also when no key is
  configured.
\<close>

theorem unconfigured_key_counterexample:
  "startsWith ''/v1/chat/completions'' ''/v1/''
   \<and> handleRequest None
        \<lparr> req_verb = ''OPTIONS'', req_pathname = ''/v1/chat/completions'',
          req_authorization = Some ''Bearer sk-anything'' \<rparr>
      = Replied \<lparr> status = 200, framing = NoContent, body = NoBody \<rparr>
   \<and> status \<lparr> status = 200, framing = NoContent, body = NoBody \<rparr> \<noteq> 500"
  by (simp add: handleRequest_def startsWith_def)

text \<open>
  C10, amended. When \<open>PROXY_API_KEY\<close> is absent or empty, every request to a path under
  \<open>/v1/\<close> whose method is not \<open>OPTIONS\<close> is answered with status 500, type
  \<open>configuration_error\<close>, code \<open>missing_api_key\<close>, whatever its Authorization header:
  \<open>authenticateApiKey\<close> tests the key's configuration before it reads the header.
\<close>

theorem unconfigured_key_rejects:
  assumes "falsy_text expectedApiKey"
    and "startsWith (req_pathname req) ''/v1/''"
    and "req_verb req \<noteq> ''OPTIONS''"
  shows "handleRequest expectedApiKey req = Replied unconfigured
       \<and> status unconfigured = 500
       \<and> body unconfigured
           = Failure \<lparr> err_message = ''Proxy API key not configured'',
                       err_type = ''configuration_error'', err_code = ''missing_api_key'' \<rparr>
       \<and> authenticateApiKey authHeader expectedApiKey
           = AuthFailure \<lparr> err_message = ''Proxy API key not configured'',
                           err_type = ''configuration_error'',
                           err_code = ''missing_api_key'' \<rparr> 500"
proof -
  have auth: "authenticateApiKey h expectedApiKey
           = AuthFailure \<lparr> err_message = ''Proxy API key not configured'',
                           err_type = ''configuration_error'',
                           err_code = ''missing_api_key'' \<rparr> 500" for h
    using assms(1) by (simp add: authenticateApiKey_def)
  have "req_pathname req \<noteq> ''/health''"
    using assms(2) by (auto simp: startsWith_def)
  then have "handleRequest expectedApiKey req = Replied unconfigured"
    using assms(2,3) by (simp add: handleRequest_def auth unconfigured_def error_reply_def)
  then show ?thesis using auth
    by (simp add: unconfigured_def error_reply_def sendJsonResponse_def)
qed

theorem unconfigured_key_rejects_witness:
  "handleRequest None
     \<lparr> req_verb = ''POST'', req_pathname = ''/v1/chat/completions'',
       req_authorization = Some ''Bearer sk-anything'' \<rparr>
     = Replied unconfigured
   \<and> handleRequest (Some [])
     \<lparr> req_verb = ''GET'', req_pathname = ''/v1/models'', req_authorization = None \<rparr>
     = Replied unconfigured
   \<and> status unconfigured = 500"
proof -
  have a: "falsy_text None" and b: "falsy_text (Some [])" by (simp_all add: falsy_text_def)
  let ?r1 = "\<lparr> req_verb = ''POST'', req_pathname = ''/v1/chat/completions'',
       req_authorization = Some ''Bearer sk-anything'' \<rparr>"
  let ?r2 = "\<lparr> req_verb = ''GET'', req_pathname = ''/v1/models'', req_authorization = None \<rparr>"
  have p1: "startsWith (req_pathname ?r1) ''/v1/''" and v1: "req_verb ?r1 \<noteq> ''OPTIONS''"
    by (simp_all add: startsWith_def)
  have p2: "startsWith (req_pathname ?r2) ''/v1/''" and v2: "req_verb ?r2 \<noteq> ''OPTIONS''"
    by (simp_all add: startsWith_def)
  show ?thesis
    using unconfigured_key_rejects[OF a p1 v1] unconfigured_key_rejects[OF b p2 v2] by simp
qed

section \<open>The poll loop\<close>

lemma poll_trace_Suc:
  "poll_trace token ps (Suc n) = [Sleep 1000, Fetch (poll_request token (ps 0))] @ poll_trace token (\<lambda>k. ps (Suc k)) n"
  unfolding poll_trace_def poll_request_def
  by (simp add: upt_conv_Cons map_Suc_upt[symmetric] del: upt_Suc) (simp add: comp_def)

lemma waits_append: "waits (xs @ ys) = waits xs @ waits ys"
  by (induction xs rule: waits.induct) simp_all

lemma waits_poll_trace: "waits (poll_trace token ps n) = replicate n 1000"
proof (induction n arbitrary: ps)
  case 0 show ?case by (simp add: poll_trace_def)
next
  case (Suc n) show ?case by (simp add: poll_trace_Suc Suc)
qed

lemma accepted_iff:
  "accepted fetch token model input p0
     \<longleftrightarrow> (\<exists>r. fetch 0 (create_request token model input) = Responded r \<and> ok r
              \<and> res_json r = Inr p0)"
  by (auto simp: accepted_def split: fetch_result.splits)

lemma polled_iff:
  "polled fetch token ps n
     \<longleftrightarrow> (\<forall>k<n. pending (ps k) \<and>
           (\<exists>r. fetch (Suc k) (poll_request token (ps k)) = Responded r
                \<and> ok r \<and> res_json r = Inr (ps (Suc k))))"
proof -
  have "(case x of Responded r \<Rightarrow> ok r \<and> res_json r = Inr q | Rejected e \<Rightarrow> False)
          \<longleftrightarrow> (\<exists>r. x = Responded r \<and> ok r \<and> res_json r = Inr q)" for x q
    by (cases x) auto
  then show ?thesis by (auto simp: polled_def list_all_iff)
qed

lemma poll_wrklog_steps:
  assumes "\<forall>k<n. pending (ps k) \<and>
             (\<exists>r. fetch (Suc (c + k)) (poll_request token (ps k)) = Responded r
                  \<and> ok r \<and> res_json r = Inr (ps (Suc k)))"
  shows "poll_wrklog fetch token (ps 0) c trace
           = poll_wrklog fetch token (ps n) (c + n) (trace @ poll_trace token ps n)"
  using assms
proof (induction n arbitrary: ps c trace)
  case 0
  then show ?case by (simp add: poll_trace_def)
next
  case (Suc n)
  from Suc.prems obtain r where p0: "pending (ps 0)"
    and r: "fetch (Suc c) (poll_request token (ps 0)) = Responded r" "ok r"
           "res_json r = Inr (ps (Suc 0))"
    by fastforce
  have step: "\<forall>k<n. pending (ps (Suc k)) \<and>
                (\<exists>r. fetch (Suc (Suc c + k)) (poll_request token (ps (Suc k))) = Responded r
                     \<and> ok r \<and> res_json r = Inr (ps (Suc (Suc k))))"
    using Suc.prems by auto
  have ih: "poll_wrklog fetch token (ps (Suc 0)) (Suc c) tr
           = poll_wrklog fetch token (ps (Suc n)) (Suc c + n)
               (tr @ poll_trace token (\<lambda>k. ps (Suc k)) n)" for tr
    using Suc.IH[of "\<lambda>k. ps (Suc k)" "Suc c" tr] step by simp
  show ?case
    by (subst poll_wrklog.simps) (simp add: p0 r ih poll_trace_Suc Let_def)
qed

lemma poll_wrk_steps:
  assumes "\<forall>k<n. pending (ps k) \<and>
             (\<exists>r. fetch (Suc (c + k)) (poll_request token (ps k)) = Responded r
                  \<and> res_json r = Inr (ps (Suc k)))"
  shows "poll_wrk fetch token (ps 0) c trace
           = poll_wrk fetch token (ps n) (c + n) (trace @ poll_trace token ps n)"
  using assms
proof (induction n arbitrary: ps c trace)
  case 0
  then show ?case by (simp add: poll_trace_def)
next
  case (Suc n)
  from Suc.prems obtain r where p0: "pending (ps 0)"
    and r: "fetch (Suc c) (poll_request token (ps 0)) = Responded r"
           "res_json r = Inr (ps (Suc 0))"
    by fastforce
  have step: "\<forall>k<n. pending (ps (Suc k)) \<and>
                (\<exists>r. fetch (Suc (Suc c + k)) (poll_request token (ps (Suc k))) = Responded r
                     \<and> res_json r = Inr (ps (Suc (Suc k))))"
    using Suc.prems by auto
  have ih: "poll_wrk fetch token (ps (Suc 0)) (Suc c) tr
           = poll_wrk fetch token (ps (Suc n)) (Suc c + n)
               (tr @ poll_trace token (\<lambda>k. ps (Suc k)) n)" for tr
    using Suc.IH[of "\<lambda>k. ps (Suc k)" "Suc c" tr] step by simp
  show ?case
    by (subst poll_wrk.simps) (simp add: p0 r ih poll_trace_Suc Let_def)
qed

lemma poll_wrklog_terminal:
  "\<not> pending p \<Longrightarrow> poll_wrklog fetch token p c trace = Some (finish_prediction p, trace)"
  by (subst poll_wrklog.simps) simp

lemma poll_wrk_terminal:
  "\<not> pending p \<Longrightarrow> poll_wrk fetch token p c trace = Some (finish_prediction p, trace)"
  by (subst poll_wrk.simps) simp


lemma callReplicateAPI_wrklog_steps:
  assumes "fetch 0 (create_request token model input) = Responded r0"
    and "ok r0" and "res_json r0 = Inr (ps 0)"
    and "\<forall>k<n. pending (ps k) \<and>
           (\<exists>r. fetch (Suc k) (poll_request token (ps k)) = Responded r
                \<and> ok r \<and> res_json r = Inr (ps (Suc k)))"
  shows "callReplicateAPI_wrklog fetch token model input
           = poll_wrklog fetch token (ps n) n
               (Fetch (create_request token model input) # poll_trace token ps n)"
proof -
  have a: "\<forall>k<n. pending (ps k) \<and>
           (\<exists>r. fetch (Suc (0 + k)) (poll_request token (ps k)) = Responded r
                \<and> ok r \<and> res_json r = Inr (ps (Suc k)))"
    using assms(4) by simp
  show ?thesis
    using poll_wrklog_steps[OF a, of "[Fetch (create_request token model input)]"]
    by (simp add: callReplicateAPI_wrklog_def assms(1-3))
qed

lemma callReplicateAPI_wrk_steps:
  assumes "fetch 0 (create_request token model input) = Responded r0"
    and "ok r0" and "res_json r0 = Inr (ps 0)"
    and "\<forall>k<n. pending (ps k) \<and>
           (\<exists>r. fetch (Suc k) (poll_request token (ps k)) = Responded r
                \<and> res_json r = Inr (ps (Suc k)))"
  shows "callReplicateAPI_wrk fetch token model input
           = poll_wrk fetch token (ps n) n
               (Fetch (create_request token model input) # poll_trace token ps n)"
proof -
  have a: "\<forall>k<n. pending (ps k) \<and>
           (\<exists>r. fetch (Suc (0 + k)) (poll_request token (ps k)) = Responded r
                \<and> res_json r = Inr (ps (Suc k)))"
    using assms(4) by simp
  show ?thesis
    using poll_wrk_steps[OF a, of "[Fetch (create_request token model input)]"]
    by (simp add: callReplicateAPI_wrk_def assms(1-3))
qed




lemma poll_wrklog_extends:
  assumes "poll_wrklog fetch token p c trace = Some y"
  shows "\<exists>rest. snd y = trace @ rest"
proof (induct rule: poll_wrklog.raw_induct[OF _ assms])
  case (1 poll fetch token result pollCount trace y)
  from 1(2) show ?case
    by (auto simp: Let_def split: if_splits fetch_result.splits sum.splits dest!: 1(1))
qed

lemma poll_wrk_extends:
  assumes "poll_wrk fetch token p c trace = Some y"
  shows "\<exists>rest. snd y = trace @ rest"
proof (induct rule: poll_wrk.raw_induct[OF _ assms])
  case (1 poll fetch token result n trace y)
  from 1(2) show ?case
    by (auto simp: Let_def split: if_splits fetch_result.splits sum.splits dest!: 1(1))
qed

lemma callReplicateAPI_wrklog_submits:
  assumes "callReplicateAPI_wrklog fetch token model input = Some (res, tr)"
  shows "\<exists>rest. tr = Fetch (create_request token model input) # rest"
  using assms
  by (auto simp: callReplicateAPI_wrklog_def Let_def
           split: fetch_result.splits if_splits sum.splits dest!: poll_wrklog_extends)

lemma callReplicateAPI_wrk_submits:
  assumes "callReplicateAPI_wrk fetch token model input = Some (res, tr)"
  shows "\<exists>rest. tr = Fetch (create_request token model input) # rest"
  using assms
  by (auto simp: callReplicateAPI_wrk_def Let_def
           split: fetch_result.splits if_splits sum.splits dest!: poll_wrk_extends)

text \<open>
  C1. After a submission that is accepted, while the job is \<open>starting\<close> or \<open>processing\<close>
  the invoker waits one second and fetches the job again by its identifier. When the
  jobs seen are \<open>ps 0\<close>, ..., \<open>ps n\<close>, the first \<open>n\<close> pending and \<open>ps n\<close> not, both workers
  return after exactly \<open>n\<close> waits of 1000 ms with the verdict on \<open>ps n\<close>: its output when
  it \<open>succeeded\<close>, an error that carries the backend's error detail when it \<open>failed\<close>.
  What they did is the submission and then, for each pending job in turn, a wait of
  1000 ms and the poll request for that job, which is a \<open>GET\<close> of
  \<open>https://api.replicate.com/v1/predictions/\<close> followed by the job's identifier. For the
  statuses starting, processing, succeeded this is two waits.
\<close>

theorem callReplicateAPI_polls_until_terminal:
  assumes "accepted fetch token model input (ps 0)"
    and "polled fetch token ps n"
    and "\<not> pending (ps n)"
  shows "callReplicateAPI_wrklog fetch token model input
           = Some (finish_prediction (ps n),
                   Fetch (create_request token model input) # poll_trace token ps n)
       \<and> callReplicateAPI_wrk fetch token model input
           = Some (finish_prediction (ps n),
                   Fetch (create_request token model input) # poll_trace token ps n)
       \<and> poll_trace token ps n
           = concat (map (\<lambda>k. [Sleep 1000, Fetch (poll_request token (ps k))]) [0..<n])
       \<and> req_method (poll_request token p) = ''GET''
       \<and> req_url (poll_request token p)
           = ''https://api.replicate.com/v1/predictions/'' @ template_text (pred_id p)
       \<and> waits (Fetch (create_request token model input) # poll_trace token ps n)
           = replicate n 1000
       \<and> (pred_status (ps n) = Some ''succeeded''
            \<longrightarrow> finish_prediction (ps n) = Inr (pred_output (ps n)))
       \<and> (pred_status (ps n) = Some ''failed''
            \<longrightarrow> finish_prediction (ps n)
                  = Inl (Error (''Replicate prediction failed: ''
                                 @ template_text (pred_error (ps n)))))"
proof -
  from assms(1) obtain r0
    where r0: "fetch 0 (create_request token model input) = Responded r0" "ok r0"
              "res_json r0 = Inr (ps 0)"
    by (auto simp: accepted_iff)
  note p = assms(2)[unfolded polled_iff]
  have q: "\<forall>k<n. pending (ps k) \<and>
             (\<exists>r. fetch (Suc k) (poll_request token (ps k)) = Responded r
                  \<and> res_json r = Inr (ps (Suc k)))"
    using p by blast
  have 1: "callReplicateAPI_wrklog fetch token model input
           = Some (finish_prediction (ps n),
                   Fetch (create_request token model input) # poll_trace token ps n)"
    by (simp add: callReplicateAPI_wrklog_steps[OF r0 p] poll_wrklog_terminal[OF assms(3)])
  have 2: "callReplicateAPI_wrk fetch token model input
           = Some (finish_prediction (ps n),
                   Fetch (create_request token model input) # poll_trace token ps n)"
    by (simp add: callReplicateAPI_wrk_steps[OF r0 q] poll_wrk_terminal[OF assms(3)])
  have 3: "waits (Fetch (create_request token model input) # poll_trace token ps n)
           = replicate n 1000"
    by (simp add: waits_poll_trace)
  have 4: "poll_trace token ps n
           = concat (map (\<lambda>k. [Sleep 1000, Fetch (poll_request token (ps k))]) [0..<n])"
    by (simp add: poll_trace_def poll_request_def)
  have 5: "req_method (poll_request token p) = ''GET''"
    "req_url (poll_request token p)
       = ''https://api.replicate.com/v1/predictions/'' @ template_text (pred_id p)"
    by (simp_all add: poll_request_def)
  show ?thesis using 1 2 3 4 5 by (simp add: finish_prediction_def)
qed

theorem callReplicateAPI_polls_until_terminal_witness:
  "accepted three_step_net (Some ''r8_token'') (JString ''meta/llama-2-70b-chat'') gpt4_input
     (three_jobs 0)
 \<and> polled three_step_net (Some ''r8_token'') three_jobs 2
 \<and> \<not> pending (three_jobs 2)
 \<and> callReplicateAPI_wrklog three_step_net (Some ''r8_token'')
       (JString ''meta/llama-2-70b-chat'') gpt4_input
     = Some (Inr (Some (Single ''X'')), three_step_trace)
 \<and> callReplicateAPI_wrk three_step_net (Some ''r8_token'')
       (JString ''meta/llama-2-70b-chat'') gpt4_input
     = Some (Inr (Some (Single ''X'')), three_step_trace)
 \<and> waits three_step_trace = [1000, 1000]
 \<and> callReplicateAPI_wrklog failed_net (Some ''r8_token'')
       (JString ''meta/llama-2-70b-chat'') gpt4_input
     = Some (Inl (Error ''Replicate prediction failed: boom''),
             [Fetch (create_request (Some ''r8_token'') (JString ''meta/llama-2-70b-chat'')
                       gpt4_input)])
 \<and> callReplicateAPI_wrk failed_net (Some ''r8_token'')
       (JString ''meta/llama-2-70b-chat'') gpt4_input
     = Some (Inl (Error ''Replicate prediction failed: boom''),
             [Fetch (create_request (Some ''r8_token'') (JString ''meta/llama-2-70b-chat'')
                       gpt4_input)])"
proof -
  have a: "accepted three_step_net (Some ''r8_token'') (JString ''meta/llama-2-70b-chat'')
             gpt4_input (three_jobs 0)"
    by (simp add: accepted_def three_step_net_def three_jobs_def scripted_def answer_def
          ok_def)
  have p: "polled three_step_net (Some ''r8_token'') three_jobs 2"
    by (simp add: polled_def three_step_net_def three_jobs_def scripted_def answer_def
          ok_def pending_def job_def numeral_2_eq_2)
  have t: "\<not> pending (three_jobs 2)"
    by (simp add: three_jobs_def pending_def job_def)
  have a': "accepted failed_net (Some ''r8_token'') (JString ''meta/llama-2-70b-chat'')
              gpt4_input (job ''failed'' None (Some ''boom''))"
    by (simp add: accepted_def failed_net_def scripted_def answer_def ok_def)
  have p': "polled failed_net (Some ''r8_token'') (\<lambda>k. job ''failed'' None (Some ''boom'')) 0"
    by (simp add: polled_def)
  have t': "\<not> pending (job ''failed'' None (Some ''boom''))"
    by (simp add: pending_def job_def)
  show ?thesis
    using callReplicateAPI_polls_until_terminal[OF a p t]
          callReplicateAPI_polls_until_terminal
            [of failed_net _ _ _ "\<lambda>k. job ''failed'' None (Some ''boom'')" 0, OF a' p' t']
          a p t
    by (simp add: poll_trace_def numeral_2_eq_2 three_jobs_def three_step_trace_def job_def
          template_text_def create_request_def getModelVersion_def modelVersions_def
          get_property_def js_or_def)
qed

subsection \<open>A poll that is refused\<close>

text \<open>
  C8. A poll that is answered with a status outside 200..299 must end the request with
  a backend-request error. The logging worker does so. The basic worker never looks at
  the status of a poll response: on an error page it leaves the loop and returns an
  \<open>undefined\<close> output without an error (the handler then fails on \<open>content.trim()\<close>), and
  on a non-2xx response whose body is a job record still \<open>processing\<close> it polls again and
  goes on to succeed.
\<close>

theorem basic_worker_ignores_failed_poll:
  "callReplicateAPI_wrk
     (scripted [answer 201 (job ''starting'' None None), error_page 500])
     (Some ''r8_token'') (JString ''meta/llama-2-7b-chat'') gpt4_input
   = Some (Inr None,
           [Fetch (create_request (Some ''r8_token'') (JString ''meta/llama-2-7b-chat'') gpt4_input),
            Sleep 1000, Fetch (poll_request (Some ''r8_token'') (job ''starting'' None None))])
 \<and> callReplicateAPI_wrklog
     (scripted [answer 201 (job ''starting'' None None), error_page 500])
     (Some ''r8_token'') (JString ''meta/llama-2-7b-chat'') gpt4_input
   = Some (Inl (Error ''Replicate polling error: 500''),
           [Fetch (create_request (Some ''r8_token'') (JString ''meta/llama-2-7b-chat'') gpt4_input),
            Sleep 1000, Fetch (poll_request (Some ''r8_token'') (job ''starting'' None None))])
 \<and> callReplicateAPI_wrk
     (scripted [answer 201 (job ''starting'' None None),
                answer 503 (job ''processing'' None None),
                answer 200 (job ''succeeded'' (Some (Single ''X'')) None)])
     (Some ''r8_token'') (JString ''meta/llama-2-7b-chat'') gpt4_input
   = Some (Inr (Some (Single ''X'')),
           [Fetch (create_request (Some ''r8_token'') (JString ''meta/llama-2-7b-chat'') gpt4_input),
            Sleep 1000, Fetch (poll_request (Some ''r8_token'') (job ''starting'' None None)),
            Sleep 1000, Fetch (poll_request (Some ''r8_token'') (job ''processing'' None None))])
 \<and> handleChatCompletions_wrk
     (scripted [answer 201 (job ''starting'' None None), error_page 500])
     (Some ''r8_token'') demo_clock (Inr gpt4_chat)
   = Some (internal_error,
           [Fetch (create_request (Some ''r8_token'') (JString ''meta/llama-2-70b-chat'') gpt4_input),
            Sleep 1000, Fetch (poll_request (Some ''r8_token'') (job ''starting'' None None))])"
  by (simp add: handleChatCompletions_wrk_def gpt4_chat_def gpt4_input_def worker_config_def
        error_page_def string_of_nat_500 run_defs net_defs)

lemma failed_net_invoker:
  "callReplicateAPI_wrklog failed_net (Some ''r8_token'') (JString ''meta/llama-2-70b-chat'')
     gpt4_input
   = Some (Inl (Error ''Replicate prediction failed: boom''),
       [Fetch (create_request (Some ''r8_token'') (JString ''meta/llama-2-70b-chat'')
                 gpt4_input)])"
  by (simp add: failed_net_def gpt4_input_def net_defs)

section \<open>The handlers\<close>

subsection \<open>The catch blocks\<close>



lemma catch_basic_failure: "body (catch_basic e) \<noteq> Success env"
  by (simp add: catch_basic_def internal_error_def error_reply_def sendJsonResponse_def)

lemma catch_classified_failure: "body (catch_classified e) \<noteq> Success env"
  by (simp add: catch_classified_def upstream_error_def internal_error_def error_reply_def
        sendJsonResponse_def)

lemma missing_fields_failure: "body (missing_fields what) \<noteq> Success env"
  by (simp add: missing_fields_def error_reply_def sendJsonResponse_def)

lemma missing_fields_reply:
  "status (missing_fields what) = 400
   \<and> body (missing_fields what)
       = Failure \<lparr> err_message = ''Missing required fields: model and '' @ what @ '' are required'',
                   err_type = ''invalid_request_error'',
                   err_code = ''missing_required_fields'' \<rparr>"
  by (simp add: missing_fields_def error_reply_def sendJsonResponse_def)

lemma catch_classified_status:
  "status (catch_classified e) = 502 \<or> status (catch_classified e) = 500"
  by (simp add: catch_classified_def upstream_error_def internal_error_def error_reply_def
        sendJsonResponse_def)

subsection \<open>The try blocks\<close>

lemma snd_try_catch: "snd (try_catch h a) = snd a"
  by (cases a) (auto simp: try_catch_def split: sum.splits)

lemma snd_run_then: "snd (run_then run m i rest) = [Run m i]"
  by (cases "run m i") (auto simp: run_then_def)

lemma run_then_cases:
  "(\<exists>e. run_then run m i rest = (Inl e, [Run m i]))
   \<or> (\<exists>out. run_then run m i rest = (rest out, [Run m i]))"
  by (cases "run m i") (auto simp: run_then_def)


lemma run_then_success:
  "run_then run m i rest = (Inr r, tr) \<Longrightarrow> \<exists>out. rest out = Inr r"
  by (auto simp: run_then_def split: sum.splits)


lemma call_then_success:
  "call_then called rest = Some (Inr r, tr) \<Longrightarrow> \<exists>out. rest out = Inr r"
  by (auto simp: call_then_def split: option.splits sum.splits prod.splits)

lemma call_then_None: "call_then called rest = None \<longleftrightarrow> called = None"
  by (auto simp: call_then_def split: option.splits sum.splits prod.splits)

lemma try_catch_success:
  assumes "\<And>e. body (h e) \<noteq> Success env"
    and "try_catch h a = (r, tr)" and "body r = Success env"
  shows "a = (Inr r, tr)"
  using assms by (cases a) (auto simp: try_catch_def split: sum.splits)

lemma try_catch_basic_success:
  "try_catch catch_basic a = (r, tr) \<Longrightarrow> body r = Success env \<Longrightarrow> a = (Inr r, tr)"
  by (rule try_catch_success[OF catch_basic_failure])

lemma try_catch_classified_success:
  "try_catch catch_classified a = (r, tr) \<Longrightarrow> body r = Success env \<Longrightarrow> a = (Inr r, tr)"
  by (rule try_catch_success[OF catch_classified_failure])

lemma worker_basic_success:
  "map_option (try_catch catch_basic) x = Some (r, tr) \<Longrightarrow> body r = Success env
     \<Longrightarrow> x = Some (Inr r, tr)"
  by (auto dest: try_catch_basic_success)

lemma worker_classified_success:
  "map_option (try_catch catch_classified) x = Some (r, tr) \<Longrightarrow> body r = Success env
     \<Longrightarrow> x = Some (Inr r, tr)"
  by (auto dest: try_catch_classified_success)

subsection \<open>The handlers once the request is parsed and validated\<close>


lemma chat_srvlog_unfold:
  "\<not> falsy_text (c_model b) \<Longrightarrow> c_messages b = Some ms \<Longrightarrow>
   handleChatCompletions_srvlog cfg run clk (Inr b)
     = try_catch catch_classified
         (run_then run (resolve_model cfg (c_model b))
            (chat_input b (convertMessagesToPrompt ms)) (send_for b clk))"
  by (simp add: handleChatCompletions_srvlog_def prompt_of_messages_def send_for_def Let_def)

lemma chat_wrklog_unfold:
  "\<not> falsy_text (c_model b) \<Longrightarrow> c_messages b = Some ms \<Longrightarrow>
   handleChatCompletions_wrklog fetch token clk (Inr b)
     = map_option (try_catch catch_classified)
         (call_then (callReplicateAPI_wrklog fetch token (resolve_model worker_config (c_model b))
                       (chat_input b (convertMessagesToPrompt ms)))
            (send_for b clk))"
  by (simp add: handleChatCompletions_wrklog_def prompt_of_messages_def send_for_def Let_def)






subsection \<open>Concrete runs\<close>

lemma run_gpt4_srvlog:
  "handleChatCompletions_srvlog readme_config hello_sdk demo_clock (Inr gpt4_chat)
   = (sendJsonResponse 200 (Success (gpt4_envelope ''Hello!'')),
      [Run (JString ''meta/llama-2-70b-chat'') gpt4_input])"
  by (simp add: handleChatCompletions_srvlog_def gpt4_chat_def readme_config_def hello_sdk_def
        demo_clock_def string_of_nat_1234 gpt4_envelope_def gpt4_input_def run_defs)

lemma run_gpt4_wrklog:
  "handleChatCompletions_wrklog
     (scripted [answer 201 (job ''starting'' None None),
                answer 200 (job ''succeeded'' (Some (Fragments ['' Hel'', ''lo! ''])) None)])
     (Some ''r8_token'') demo_clock (Inr gpt4_chat)
   = Some (sendJsonResponse 200 (Success (gpt4_envelope ''Hello!'')),
      [Fetch (create_request (Some ''r8_token'') (JString ''meta/llama-2-70b-chat'') gpt4_input),
       Sleep 1000, Fetch (poll_request (Some ''r8_token'') (job ''starting'' None None))])"
  by (simp add: handleChatCompletions_wrklog_def gpt4_chat_def worker_config_def
        demo_clock_def string_of_nat_1234 gpt4_envelope_def gpt4_input_def run_defs net_defs)

lemma run_empty_srvlog:
  "handleChatCompletions_srvlog readme_config hello_sdk demo_clock (Inr empty_chat)
   = (sendJsonResponse 200 (Success (gpt4_envelope ''Hello!'')),
      [Run (JString ''meta/llama-2-70b-chat'')
         \<lparr> in_prompt = Some ''Assistant: '', in_max_new_tokens = 500,
           in_temperature = 7 / 10 \<rparr>])"
  by (simp add: handleChatCompletions_srvlog_def empty_chat_def readme_config_def hello_sdk_def
        demo_clock_def string_of_nat_1234 gpt4_envelope_def run_defs)

lemma run_empty_wrklog:
  "handleChatCompletions_wrklog
     (scripted [answer 201 (job ''succeeded'' (Some (Single ''Hello!'')) None)])
     (Some ''r8_token'') demo_clock (Inr empty_chat)
   = Some (sendJsonResponse 200 (Success (gpt4_envelope ''Hello!'')),
      [Fetch (create_request (Some ''r8_token'') (JString ''meta/llama-2-70b-chat'') empty_input)])"
  by (simp add: handleChatCompletions_wrklog_def empty_chat_def worker_config_def
        demo_clock_def string_of_nat_1234 gpt4_envelope_def empty_input_def run_defs net_defs)

lemma run_modelless_srv:
  "handleChatCompletions_srv readme_config hello_sdk demo_clock (Inr modelless_chat)
   = (sendJsonResponse 200 (Success ((gpt4_envelope ''Hello!'') \<lparr> env_model := None \<rparr>)),
      [Run (JString ''meta/llama-2-7b-chat'') gpt4_input])"
  by (simp add: handleChatCompletions_srv_def modelless_chat_def readme_config_def hello_sdk_def
        demo_clock_def string_of_nat_1234 gpt4_envelope_def gpt4_input_def run_defs)


text \<open>
  The logging server answers an SDK error whose message does not name Replicate with
  500; the logging worker answers the job that failed with 502.
\<close>

lemma run_failing_srvlog:
  "handleChatCompletions_srvlog readme_config failing_sdk demo_clock (Inr gpt4_chat)
   = (internal_error, [Run (JString ''meta/llama-2-70b-chat'') gpt4_input])"
  by (simp add: handleChatCompletions_srvlog_def gpt4_chat_def readme_config_def failing_sdk_def
        internal_error_def gpt4_input_def run_defs)


lemma run_failed_wrklog:
  "handleChatCompletions_wrklog
     (scripted [answer 201 (job ''failed'' None (Some ''boom''))])
     (Some ''r8_token'') demo_clock (Inr gpt4_chat)
   = Some (upstream_error,
      [Fetch (create_request (Some ''r8_token'') (JString ''meta/llama-2-70b-chat'') gpt4_input)])"
  by (simp add: handleChatCompletions_wrklog_def gpt4_chat_def worker_config_def
        upstream_error_def gpt4_input_def run_defs net_defs)

section \<open>The echoed model\<close>

lemma send_chat_model:
  "send_chat clk model out = Inr r \<Longrightarrow> body r = Success env \<Longrightarrow> env_model env = model"
  by (auto simp: send_chat_def formatAsOpenAIResponse_def sendJsonResponse_def Let_def
           split: sum.splits)

lemma send_stream_model:
  "send_stream clk model out = Inr r \<Longrightarrow> body r = Success env \<Longrightarrow> env_model env = model"
  by (auto simp: send_stream_def streamResponse_def sendStreamingResponse_def Let_def
           split: sum.splits)

lemma send_text_model:
  "send_text clk model out = Inr r \<Longrightarrow> body r = Success env \<Longrightarrow> env_model env = model"
  by (auto simp: send_text_def textCompletion_def sendJsonResponse_def Let_def
           split: sum.splits)

lemma echo_chat_srv:
  assumes "handleChatCompletions_srv cfg run clk (Inr b) = (r, tr)" "body r = Success env"
  shows "env_model env = c_model b"
  using try_catch_basic_success[OF assms[unfolded handleChatCompletions_srv_def]] assms(2)
  by (auto simp: Let_def split: sum.splits if_splits
           dest!: run_then_success dest: send_chat_model send_stream_model)

lemma echo_legacy_srv:
  assumes "handleCompletions_srv cfg run clk (Inr b) = (r, tr)" "body r = Success env"
  shows "env_model env = l_model b"
  using try_catch_basic_success[OF assms[unfolded handleCompletions_srv_def]] assms(2)
  by (auto simp: Let_def split: sum.splits if_splits option.splits
           dest!: run_then_success dest: send_text_model)

lemma echo_chat_srvlog:
  assumes "handleChatCompletions_srvlog cfg run clk (Inr b) = (r, tr)" "body r = Success env"
  shows "env_model env = c_model b"
  using try_catch_classified_success[OF assms[unfolded handleChatCompletions_srvlog_def]] assms(2)
  by (auto simp: Let_def missing_fields_failure split: sum.splits if_splits
           dest!: run_then_success dest: send_chat_model send_stream_model)

lemma echo_legacy_srvlog:
  assumes "handleCompletions_srvlog cfg run clk (Inr b) = (r, tr)" "body r = Success env"
  shows "env_model env = l_model b"
  using try_catch_classified_success[OF assms[unfolded handleCompletions_srvlog_def]] assms(2)
  by (auto simp: Let_def missing_fields_failure split: sum.splits if_splits
           dest!: run_then_success dest: send_text_model)

lemma echo_chat_wrklog:
  assumes "handleChatCompletions_wrklog fetch token clk (Inr b) = Some (r, tr)"
    and "body r = Success env"
  shows "env_model env = c_model b"
  using worker_classified_success[OF assms[unfolded handleChatCompletions_wrklog_def]] assms(2)
  by (auto simp: Let_def missing_fields_failure split: sum.splits if_splits
           dest!: call_then_success dest: send_chat_model send_stream_model)

lemma echo_legacy_wrklog:
  assumes "handleCompletions_wrklog fetch token clk (Inr b) = Some (r, tr)"
    and "body r = Success env"
  shows "env_model env = l_model b"
  using worker_classified_success[OF assms[unfolded handleCompletions_wrklog_def]] assms(2)
  by (auto simp: Let_def missing_fields_failure split: sum.splits if_splits
           dest!: call_then_success dest: send_text_model)

lemma echo_chat_wrk:
  assumes "handleChatCompletions_wrk fetch token clk (Inr b) = Some (r, tr)"
    and "body r = Success env"
  shows "env_model env = c_model b"
  using worker_basic_success[OF assms[unfolded handleChatCompletions_wrk_def]] assms(2)
  by (auto simp: Let_def split: sum.splits if_splits
           dest!: call_then_success dest: send_chat_model send_stream_model)

lemma echo_legacy_wrk:
  assumes "handleCompletions_wrk fetch token clk (Inr b) = Some (r, tr)"
    and "body r = Success env"
  shows "env_model env = l_model b"
  using worker_basic_success[OF assms[unfolded handleCompletions_wrk_def]] assms(2)
  by (auto simp: Let_def split: sum.splits if_splits
           dest!: call_then_success dest: send_text_model)

text \<open>
  C6. Whenever a handler answers with a success envelope (chat completion, chunk or
  legacy text completion, in any of the four variants), the envelope's model is the
  model of the inbound request, not the backend model it was resolved to.
\<close>

theorem success_echoes_inbound_model:
  "(handleChatCompletions_srv cfg run clk (Inr b) = (r, tr) \<and> body r = Success env
      \<longrightarrow> env_model env = c_model b)
 \<and> (handleCompletions_srv cfg run clk (Inr lb) = (r, tr) \<and> body r = Success env
      \<longrightarrow> env_model env = l_model lb)
 \<and> (handleChatCompletions_srvlog cfg run clk (Inr b) = (r, tr) \<and> body r = Success env
      \<longrightarrow> env_model env = c_model b)
 \<and> (handleCompletions_srvlog cfg run clk (Inr lb) = (r, tr) \<and> body r = Success env
      \<longrightarrow> env_model env = l_model lb)
 \<and> (handleChatCompletions_wrklog fetch token clk (Inr b) = Some (r, tr) \<and> body r = Success env
      \<longrightarrow> env_model env = c_model b)
 \<and> (handleCompletions_wrklog fetch token clk (Inr lb) = Some (r, tr) \<and> body r = Success env
      \<longrightarrow> env_model env = l_model lb)
 \<and> (handleChatCompletions_wrk fetch token clk (Inr b) = Some (r, tr) \<and> body r = Success env
      \<longrightarrow> env_model env = c_model b)
 \<and> (handleCompletions_wrk fetch token clk (Inr lb) = Some (r, tr) \<and> body r = Success env
      \<longrightarrow> env_model env = l_model lb)"
proof (intro conjI impI; elim conjE)
  show "handleChatCompletions_srv cfg run clk (Inr b) = (r, tr) \<Longrightarrow> body r = Success env
          \<Longrightarrow> env_model env = c_model b"
    by (rule echo_chat_srv)
  show "handleCompletions_srv cfg run clk (Inr lb) = (r, tr) \<Longrightarrow> body r = Success env
          \<Longrightarrow> env_model env = l_model lb"
    by (rule echo_legacy_srv)
  show "handleChatCompletions_srvlog cfg run clk (Inr b) = (r, tr) \<Longrightarrow> body r = Success env
          \<Longrightarrow> env_model env = c_model b"
    by (rule echo_chat_srvlog)
  show "handleCompletions_srvlog cfg run clk (Inr lb) = (r, tr) \<Longrightarrow> body r = Success env
          \<Longrightarrow> env_model env = l_model lb"
    by (rule echo_legacy_srvlog)
  show "handleChatCompletions_wrklog fetch token clk (Inr b) = Some (r, tr)
          \<Longrightarrow> body r = Success env \<Longrightarrow> env_model env = c_model b"
    by (rule echo_chat_wrklog)
  show "handleCompletions_wrklog fetch token clk (Inr lb) = Some (r, tr)
          \<Longrightarrow> body r = Success env \<Longrightarrow> env_model env = l_model lb"
    by (rule echo_legacy_wrklog)
  show "handleChatCompletions_wrk fetch token clk (Inr b) = Some (r, tr)
          \<Longrightarrow> body r = Success env \<Longrightarrow> env_model env = c_model b"
    by (rule echo_chat_wrk)
  show "handleCompletions_wrk fetch token clk (Inr lb) = Some (r, tr)
          \<Longrightarrow> body r = Success env \<Longrightarrow> env_model env = l_model lb"
    by (rule echo_legacy_wrk)
qed

theorem success_echoes_inbound_model_witness:
  "handleChatCompletions_srvlog readme_config hello_sdk demo_clock (Inr gpt4_chat)
     = (sendJsonResponse 200 (Success (gpt4_envelope ''Hello!'')),
        [Run (JString ''meta/llama-2-70b-chat'') gpt4_input])
   \<and> body (sendJsonResponse 200 (Success (gpt4_envelope ''Hello!'')))
       = Success (gpt4_envelope ''Hello!'')
   \<and> env_model (gpt4_envelope ''Hello!'') = c_model gpt4_chat
   \<and> c_model gpt4_chat = Some ''gpt-4''
   \<and> resolve_model readme_config (c_model gpt4_chat) = JString ''meta/llama-2-70b-chat''"
proof -
  have b: "body (sendJsonResponse 200 (Success (gpt4_envelope ''Hello!'')))
       = Success (gpt4_envelope ''Hello!'')"
    by (simp add: sendJsonResponse_def)
  have "env_model (gpt4_envelope ''Hello!'') = c_model gpt4_chat"
    using success_echoes_inbound_model[of readme_config hello_sdk demo_clock gpt4_chat
            "sendJsonResponse 200 (Success (gpt4_envelope ''Hello!''))"
            "[Run (JString ''meta/llama-2-70b-chat'') gpt4_input]"
            "gpt4_envelope ''Hello!''"]
          run_gpt4_srvlog b
    by blast
  then show ?thesis using run_gpt4_srvlog b
    by (simp add: gpt4_chat_def readme_config_def run_defs)
qed

section \<open>Required fields\<close>

text \<open>
  C3, as stated, fails: the logging server accepts a chat request whose message list is
  empty and calls the backend for it, and the server of \<open>src/index.js\<close>, which does not
  validate, calls the backend for a request without a model.
\<close>

theorem required_fields_counterexample:
  "c_messages empty_chat = Some []
   \<and> handleChatCompletions_srvlog readme_config hello_sdk demo_clock (Inr empty_chat)
       = (sendJsonResponse 200 (Success (gpt4_envelope ''Hello!'')),
          [Run (JString ''meta/llama-2-70b-chat'') empty_input])
   \<and> c_model modelless_chat = None
   \<and> handleChatCompletions_srv readme_config hello_sdk demo_clock (Inr modelless_chat)
       = (sendJsonResponse 200 (Success ((gpt4_envelope ''Hello!'') \<lparr> env_model := None \<rparr>)),
          [Run (JString ''meta/llama-2-7b-chat'') gpt4_input])"
  using run_empty_srvlog run_modelless_srv
  by (simp add: empty_chat_def modelless_chat_def empty_input_def)

text \<open>
  C3, amended. In the handlers that validate (the server with logging and the worker
  with logging), a chat request whose model is absent or empty or whose messages are
  absent, and a legacy request whose model or prompt is absent or empty, is answered
  with status 400, type \<open>invalid_request_error\<close>, code \<open>missing_required_fields\<close>, and
  nothing is sent to the backend.
\<close>

theorem validating_handlers_reject_missing_fields:
  "(falsy_text (c_model b) \<or> c_messages b = None \<longrightarrow>
      handleChatCompletions_srvlog cfg run clk (Inr b) = (missing_fields ''messages'', [])
    \<and> handleChatCompletions_wrklog fetch token clk (Inr b)
        = Some (missing_fields ''messages'', []))
 \<and> (falsy_text (l_model lb) \<or> falsy_text (l_prompt lb) \<longrightarrow>
      handleCompletions_srvlog cfg run clk (Inr lb) = (missing_fields ''prompt'', [])
    \<and> handleCompletions_wrklog fetch token clk (Inr lb)
        = Some (missing_fields ''prompt'', []))
 \<and> status (missing_fields what) = 400
 \<and> body (missing_fields what)
       = Failure \<lparr> err_message = ''Missing required fields: model and '' @ what @ '' are required'',
                   err_type = ''invalid_request_error'',
                   err_code = ''missing_required_fields'' \<rparr>"
proof -
  have chat: "falsy_text (c_model b) \<or> c_messages b = None \<longrightarrow>
      handleChatCompletions_srvlog cfg run clk (Inr b) = (missing_fields ''messages'', [])
    \<and> handleChatCompletions_wrklog fetch token clk (Inr b)
        = Some (missing_fields ''messages'', [])"
    by (auto simp: handleChatCompletions_srvlog_def handleChatCompletions_wrklog_def
          try_catch_def)
  have legacy: "falsy_text (l_model lb) \<or> falsy_text (l_prompt lb) \<longrightarrow>
      handleCompletions_srvlog cfg run clk (Inr lb) = (missing_fields ''prompt'', [])
    \<and> handleCompletions_wrklog fetch token clk (Inr lb)
        = Some (missing_fields ''prompt'', [])"
    by (auto simp: handleCompletions_srvlog_def handleCompletions_wrklog_def try_catch_def)
  show ?thesis using chat legacy missing_fields_reply[of what] by blast
qed

theorem validating_handlers_reject_missing_fields_witness:
  "falsy_text (c_model modelless_chat)
   \<and> handleChatCompletions_srvlog readme_config hello_sdk demo_clock (Inr modelless_chat)
       = (missing_fields ''messages'', [])
   \<and> handleChatCompletions_wrklog (scripted []) None demo_clock (Inr modelless_chat)
       = Some (missing_fields ''messages'', [])
   \<and> falsy_text (l_prompt promptless)
   \<and> handleCompletions_srvlog readme_config hello_sdk demo_clock (Inr promptless)
       = (missing_fields ''prompt'', [])
   \<and> handleCompletions_wrklog (scripted []) None demo_clock (Inr promptless)
       = Some (missing_fields ''prompt'', [])
   \<and> status (missing_fields ''prompt'') = 400"
proof -
  have a: "falsy_text (c_model modelless_chat)" and b: "falsy_text (l_prompt promptless)"
    by (simp_all add: modelless_chat_def promptless_def falsy_text_def)
  show ?thesis
    using validating_handlers_reject_missing_fields[of modelless_chat readme_config hello_sdk
            demo_clock "scripted []" None promptless "''prompt''"] a b
    by simp
qed

section \<open>The empty message list\<close>

lemma send_for_status: "send_for b clk out = Inr r \<Longrightarrow> status r = 200"
  by (auto simp: send_for_def send_chat_def send_stream_def sendJsonResponse_def
        sendStreamingResponse_def map_sum_id_Inr split: if_splits)

lemma send_text_status: "send_text clk m out = Inr r \<Longrightarrow> status r = 200"
  by (auto simp: send_text_def sendJsonResponse_def map_sum_id_Inr)

lemma classified_run_status:
  assumes "\<And>out r. rest out = Inr r \<Longrightarrow> status r = 200"
  shows "status (fst (try_catch catch_classified (run_then run m i rest))) \<noteq> 400"
proof -
  consider e where "run_then run m i rest = (Inl e, [Run m i])"
    | out where "run_then run m i rest = (rest out, [Run m i])"
    using run_then_cases by blast
  then show ?thesis
  proof cases
    case 1
    then show ?thesis using catch_classified_status[of e] by (auto simp: try_catch_def)
  next
    case 2
    show ?thesis
    proof (cases "rest out")
      case (Inl e)
      with 2 show ?thesis using catch_classified_status[of e] by (auto simp: try_catch_def)
    next
      case (Inr r)
      with 2 assms[OF Inr] show ?thesis by (simp add: try_catch_def)
    qed
  qed
qed

lemma classified_call_status:
  assumes "\<And>out r. rest out = Inr r \<Longrightarrow> status r = 200"
    and "map_option (try_catch catch_classified) (call_then called rest) = Some (r, tr)"
  shows "status r \<noteq> 400 \<and> (\<exists>res. called = Some (res, tr))"
proof -
  from assms(2) obtain res tr' where c: "called = Some (res, tr')"
    by (cases called) (auto simp: call_then_def)
  show ?thesis
  proof (cases res)
    case (Inl e)
    with c assms(2) show ?thesis using catch_classified_status[of e]
      by (auto simp: call_then_def try_catch_def)
  next
    case (Inr out)
    show ?thesis
    proof (cases "rest out")
      case (Inl e)
      with c Inr assms(2) show ?thesis using catch_classified_status[of e]
        by (auto simp: call_then_def try_catch_def)
    next
      case r: (Inr r')
      with c Inr assms(2) assms(1)[OF r] show ?thesis
        by (auto simp: call_then_def try_catch_def)
    qed
  qed
qed

text \<open>
  C9. A chat request with a model and an empty message list passes the validation of
  the logging server and of the logging worker: it is not answered with 400. The prompt
  compiled from the empty list is exactly \<open>Assistant: \<close>, and the backend is called with
  that prompt: the server's trace is the one SDK call, the worker answers exactly when
  its invoker returns on that input, and its trace starts with the submission.
\<close>

theorem empty_message_list_reaches_backend:
  assumes "\<not> falsy_text (c_model b)" and "c_messages b = Some []"
  shows "convertMessagesToPrompt [] = ''Assistant: ''
       \<and> in_prompt (chat_input b ''Assistant: '') = Some ''Assistant: ''
       \<and> snd (handleChatCompletions_srvlog cfg run clk (Inr b))
           = [Run (resolve_model cfg (c_model b)) (chat_input b ''Assistant: '')]
       \<and> status (fst (handleChatCompletions_srvlog cfg run clk (Inr b))) \<noteq> 400
       \<and> (handleChatCompletions_wrklog fetch token clk (Inr b) = None
            \<longleftrightarrow> callReplicateAPI_wrklog fetch token
                  (resolve_model worker_config (c_model b)) (chat_input b ''Assistant: '')
                = None)
       \<and> (handleChatCompletions_wrklog fetch token clk (Inr b) = Some (r, tr)
            \<longrightarrow> status r \<noteq> 400
              \<and> (\<exists>rest. tr = Fetch (create_request token
                                      (resolve_model worker_config (c_model b))
                                      (chat_input b ''Assistant: '')) # rest))"
proof -
  note srv = chat_srvlog_unfold[OF assms, of cfg run clk, unfolded convert_empty]
  note wrk = chat_wrklog_unfold[OF assms, of fetch token clk, unfolded convert_empty]
  have 1: "snd (handleChatCompletions_srvlog cfg run clk (Inr b))
           = [Run (resolve_model cfg (c_model b)) (chat_input b ''Assistant: '')]"
    by (simp add: srv snd_try_catch snd_run_then)
  have 2: "status (fst (handleChatCompletions_srvlog cfg run clk (Inr b))) \<noteq> 400"
    unfolding srv by (rule classified_run_status) (rule send_for_status)
  have 3: "handleChatCompletions_wrklog fetch token clk (Inr b) = None
            \<longleftrightarrow> callReplicateAPI_wrklog fetch token
                  (resolve_model worker_config (c_model b)) (chat_input b ''Assistant: '')
                = None"
    by (simp add: wrk call_then_None)
  have 4: "status r \<noteq> 400
              \<and> (\<exists>rest. tr = Fetch (create_request token
                                      (resolve_model worker_config (c_model b))
                                      (chat_input b ''Assistant: '')) # rest)"
    if h: "handleChatCompletions_wrklog fetch token clk (Inr b) = Some (r, tr)"
  proof -
    have "status r \<noteq> 400
          \<and> (\<exists>res. callReplicateAPI_wrklog fetch token
                     (resolve_model worker_config (c_model b))
                     (chat_input b ''Assistant: '') = Some (res, tr))"
      by (rule classified_call_status[where rest = "send_for b clk"])
         (erule send_for_status, rule h[unfolded wrk])
    then obtain res where "status r \<noteq> 400"
      and "callReplicateAPI_wrklog fetch token (resolve_model worker_config (c_model b))
             (chat_input b ''Assistant: '') = Some (res, tr)"
      by blast
    then show ?thesis using callReplicateAPI_wrklog_submits by blast
  qed
  show ?thesis using 1 2 3 4 by (simp add: convert_empty chat_input_def)
qed

theorem empty_message_list_reaches_backend_witness:
  "\<not> falsy_text (c_model empty_chat) \<and> c_messages empty_chat = Some []
   \<and> snd (handleChatCompletions_srvlog readme_config hello_sdk demo_clock (Inr empty_chat))
       = [Run (JString ''meta/llama-2-70b-chat'') empty_input]
   \<and> status (fst (handleChatCompletions_srvlog readme_config hello_sdk demo_clock
                      (Inr empty_chat))) \<noteq> 400
   \<and> handleChatCompletions_wrklog
        (scripted [answer 201 (job ''succeeded'' (Some (Single ''Hello!'')) None)])
        (Some ''r8_token'') demo_clock (Inr empty_chat)
      = Some (sendJsonResponse 200 (Success (gpt4_envelope ''Hello!'')),
          [Fetch (create_request (Some ''r8_token'') (JString ''meta/llama-2-70b-chat'')
                    empty_input)])
   \<and> status (sendJsonResponse 200 (Success (gpt4_envelope ''Hello!''))) \<noteq> 400"
proof -
  have a: "\<not> falsy_text (c_model empty_chat)" and b: "c_messages empty_chat = Some []"
    by (simp_all add: empty_chat_def falsy_text_def)
  have c: "resolve_model readme_config (c_model empty_chat) = JString ''meta/llama-2-70b-chat''"
    by (simp add: empty_chat_def readme_config_def run_defs)
  have d: "chat_input empty_chat ''Assistant: '' = empty_input"
    by (simp add: empty_chat_def empty_input_def run_defs)
  show ?thesis
    using empty_message_list_reaches_backend[OF a b, of readme_config hello_sdk demo_clock
            "scripted [answer 201 (job ''succeeded'' (Some (Single ''Hello!'')) None)]"
            "Some ''r8_token''"
            "sendJsonResponse 200 (Success (gpt4_envelope ''Hello!''))"
            "[Fetch (create_request (Some ''r8_token'') (JString ''meta/llama-2-70b-chat'')
                    empty_input)]"]
          a b run_empty_wrklog
    by (simp add: c d)
qed

section \<open>Errors become envelopes\<close>

subsection \<open>What the invokers raise\<close>





subsection \<open>What the catch blocks answer\<close>










subsection \<open>Every error of every handler\<close>














































subsection \<open>Every reply is an envelope\<close>

lemma formatted_as_member:
  "r \<in> set errors \<Longrightarrow> body r = Failure err \<Longrightarrow> formatted_as errors r"
  by (simp add: formatted_as_def)














subsection \<open>The claim\<close>




end
